theory Spec2Isabelle
  imports
    Complex_Main
    "HOL-Library.AList"
    "HOL-Library.Char_ord"
    "HOL-Library.List_Lexorder"
    "HOL-Library.Multiset"
begin

section \<open>Data model of \<open>validator/weights.py\<close>\<close>

text \<open>
  The Python values that the code compares and sorts: a slot id (\<open>uid\<close>, \<open>node_id\<close>),
  which the code tests with \<open>is not None\<close> and \<open>isinstance(x, str)\<close>, and a timestamp
  are each an integer or a string. \<open>None\<close> is the \<open>None\<close> of \<open>py_value option\<close>.
  Strings are ASCII.
\<close>

datatype py_value = PyInt int | PyStr string

fun is_PyInt :: "py_value \<Rightarrow> bool" where
  "is_PyInt (PyInt i) = True"
| "is_PyInt (PyStr s) = False"

fun is_PyStr :: "py_value \<Rightarrow> bool" where
  "is_PyStr (PyStr s) = True"
| "is_PyStr (PyInt i) = False"

fun the_int :: "py_value \<Rightarrow> int" where
  "the_int (PyInt i) = i"
| "the_int (PyStr s) = 0"

fun the_str :: "py_value \<Rightarrow> string" where
  "the_str (PyStr s) = s"
| "the_str (PyInt i) = []"

datatype py_error = KeyError | TypeError | OtherError string

text \<open>
  \<open>sorted(xs, key=f)\<close>: a stable ascending sort, of integers by value and of strings
  lexicographically by character code. Python raises \<open>TypeError\<close> when it has to compare
  an integer with a string, which any sort of a list holding both kinds of key does.
  With \<open>reverse=True\<close> Python reverses the list, sorts it in the same way and reverses
  the result, so that equal keys keep their original order.
\<close>

definition py_sorted :: "('a \<Rightarrow> py_value) \<Rightarrow> 'a list \<Rightarrow> py_error + 'a list" where
  "py_sorted key xs =
     (if list_all (\<lambda>x. is_PyInt (key x)) xs then Inr (sort_key (\<lambda>x. the_int (key x)) xs)
      else if list_all (\<lambda>x. is_PyStr (key x)) xs then Inr (sort_key (\<lambda>x. the_str (key x)) xs)
      else Inl TypeError)"

definition py_sorted_reverse :: "('a \<Rightarrow> py_value) \<Rightarrow> 'a list \<Rightarrow> py_error + 'a list" where
  "py_sorted_reverse key xs =
     (case py_sorted key (rev xs) of
        Inl e \<Rightarrow> Inl e
      | Inr ys \<Rightarrow> Inr (rev ys))"

text \<open>
  \<open>NodeData\<close>: one telemetry snapshot, and also one delta record. The class is declared
  in \<open>interfaces.types\<close>; its fields are those the constructor calls of \<open>weights.py\<close>
  name. Counters are Python integers.
\<close>

record NodeData =
  hotkey :: string
  uid :: "py_value option"
  worker_id :: string
  timestamp :: py_value
  boot_time :: int
  last_operation_time :: int
  current_time :: int
  twitter_auth_errors :: int
  twitter_errors :: int
  twitter_ratelimit_errors :: int
  twitter_returned_other :: int
  twitter_returned_profiles :: int
  twitter_returned_tweets :: int
  twitter_scrapes :: int
  web_errors :: int
  web_success :: int

text \<open>A metagraph node; only the two fields that \<open>weights.py\<close> reads.\<close>

datatype Node = Node (node_hotkey: string) (node_id: "py_value option")

text \<open>
  The telemetry storage is read through two queries; the record holds what they return,
  whatever it is: the list of \<open>get_all_hotkeys_with_telemetry()\<close> and, for each hotkey,
  the list of \<open>get_telemetry_by_hotkey(hotkey)\<close>.
\<close>

record TelemetryStorage =
  get_all_hotkeys_with_telemetry :: "string list"
  get_telemetry_by_hotkey :: "string \<Rightarrow> NodeData list"

text \<open>What the node manager's \<open>send_score_report\<close> and the chain's \<open>set_node_weights\<close> do when called.\<close>

datatype report_outcome = ReportSent | ReportRaises py_error

datatype submit_outcome = SubmitTrue | SubmitFalse | SubmitRaises py_error

text \<open>
  The validator as \<open>WeightsManager\<close> sees it. \<open>metagraph_nodes\<close> is the dict
  \<open>metagraph.nodes\<close> (hotkey to node) in iteration order. The remaining fields are the
  answers of the calls that leave \<open>weights.py\<close>, taken as given: the node manager's
  \<open>send_score_report\<close> for each call, and the chain's \<open>interface.get_substrate\<close>,
  \<open>weights.blocks_since_last_update\<close>, \<open>weights.min_interval_to_set_weights\<close> and
  \<open>weights.set_node_weights\<close>. A \<open>py_error\<close> is a raised exception (a subclass of
  \<open>Exception\<close>); \<open>set_node_weights\<close> is indexed by the attempt number.
\<close>

record Validator =
  metagraph_nodes :: "(string \<times> Node) list"
  telemetry_storage :: TelemetryStorage
  keypair_ss58_address :: string
  send_score_report :: "string \<Rightarrow> real \<Rightarrow> NodeData \<Rightarrow> report_outcome"
  get_substrate :: "py_error option"
  blocks_since_last_update :: "py_error + int option"
  min_interval_to_set_weights :: "py_error + int"
  set_node_weights :: "nat \<Rightarrow> submit_outcome"

section \<open>The delta engine: \<open>_get_delta_node_data\<close>\<close>

definition zero_node_data :: "string \<Rightarrow> py_value option \<Rightarrow> NodeData" where
  "zero_node_data hk u =
     \<lparr>hotkey = hk, uid = u, worker_id = '''', timestamp = PyInt 0, boot_time = 0,
      last_operation_time = 0, current_time = 0, twitter_auth_errors = 0,
      twitter_errors = 0, twitter_ratelimit_errors = 0, twitter_returned_other = 0,
      twitter_returned_profiles = 0, twitter_returned_tweets = 0, twitter_scrapes = 0,
      web_errors = 0, web_success = 0\<rparr>"

definition delta_data :: "string \<Rightarrow> NodeData \<Rightarrow> NodeData \<Rightarrow> NodeData" where
  "delta_data hk latest oldest =
     \<lparr>hotkey = hk, uid = uid latest, worker_id = worker_id latest,
      timestamp = timestamp latest,
      boot_time = boot_time latest - boot_time oldest,
      last_operation_time = last_operation_time latest - last_operation_time oldest,
      current_time = current_time latest - current_time oldest,
      twitter_auth_errors = twitter_auth_errors latest - twitter_auth_errors oldest,
      twitter_errors = twitter_errors latest - twitter_errors oldest,
      twitter_ratelimit_errors =
        twitter_ratelimit_errors latest - twitter_ratelimit_errors oldest,
      twitter_returned_other = twitter_returned_other latest - twitter_returned_other oldest,
      twitter_returned_profiles =
        twitter_returned_profiles latest - twitter_returned_profiles oldest,
      twitter_returned_tweets =
        twitter_returned_tweets latest - twitter_returned_tweets oldest,
      twitter_scrapes = twitter_scrapes latest - twitter_scrapes oldest,
      web_errors = web_errors latest - web_errors oldest,
      web_success = web_success latest - web_success oldest\<rparr>"

text \<open>The list \<open>all_hotkeys\<close> of \<open>(node_id, hotkey)\<close> pairs, one per metagraph entry.\<close>

definition all_hotkeys :: "(string \<times> Node) list \<Rightarrow> (py_value option \<times> string) list" where
  "all_hotkeys nodes = map (\<lambda>(k, node_data). (node_id node_data, node_hotkey node_data)) nodes"

text \<open>\<open>next((uid for uid, hk in all_hotkeys if hk == hotkey), 0)\<close>\<close>

definition find_uid :: "(py_value option \<times> string) list \<Rightarrow> string \<Rightarrow> py_value option" where
  "find_uid allhk hk =
     (case filter (\<lambda>(u, h). h = hk) allhk of
        [] \<Rightarrow> Some (PyInt 0)
      | (u, h) # rest \<Rightarrow> u)"

text \<open>
  The record appended for one hotkey of \<open>hotkeys_to_score\<close>; the sort raises when the
  timestamps of the hotkey's snapshots are not all of one kind.
\<close>

definition telemetry_record ::
  "TelemetryStorage \<Rightarrow> (py_value option \<times> string) list \<Rightarrow> string \<Rightarrow> py_error + NodeData" where
  "telemetry_record st allhk hk =
     (let node_telemetry = get_telemetry_by_hotkey st hk in
      if length node_telemetry \<ge> 2 then
        (case py_sorted_reverse timestamp node_telemetry of
           Inl e \<Rightarrow> Inl e
         | Inr sorted_telemetry \<Rightarrow>
             (let latest = hd sorted_telemetry;
                  oldest = last sorted_telemetry
              in Inr (delta_data hk latest oldest)))
      else Inr (zero_node_data hk (find_uid allhk hk)))"

text \<open>
  First loop: one record per hotkey with telemetry; the state is
  \<open>(delta_node_data, processed_hotkeys)\<close>. An exception ends the loop and the function.
\<close>

fun process_hotkeys ::
  "TelemetryStorage \<Rightarrow> (py_value option \<times> string) list \<Rightarrow> string list \<Rightarrow>
   NodeData list \<times> string set \<Rightarrow> py_error + NodeData list \<times> string set" where
  "process_hotkeys st allhk [] s = Inr s"
| "process_hotkeys st allhk (hk # hks) (acc, processed) =
     (case telemetry_record st allhk hk of
        Inl e \<Rightarrow> Inl e
      | Inr delta \<Rightarrow> process_hotkeys st allhk hks (acc @ [delta], insert hk processed))"

text \<open>Second loop: a zero record for every metagraph hotkey not processed by the first.\<close>

fun add_missing ::
  "(py_value option \<times> string) list \<Rightarrow> string set \<Rightarrow> NodeData list \<Rightarrow> NodeData list" where
  "add_missing [] processed acc = acc"
| "add_missing ((u, hk) # rest) processed acc =
     add_missing rest processed
       (if hk \<notin> processed then acc @ [zero_node_data hk u] else acc)"

definition get_delta_node_data :: "Validator \<Rightarrow> py_error + NodeData list" where
  "get_delta_node_data v =
     (let hotkeys_to_score = get_all_hotkeys_with_telemetry (telemetry_storage v);
          allhk = all_hotkeys (metagraph_nodes v)
      in case process_hotkeys (telemetry_storage v) allhk hotkeys_to_score ([], {}) of
           Inl e \<Rightarrow> Inl e
         | Inr (acc, processed) \<Rightarrow> Inr (add_missing allhk processed acc))"

section \<open>The score transform: \<open>apply_kurtosis_custom\<close>\<close>

text \<open>
  numpy's float64 arithmetic is idealised as exact real arithmetic. \<open>np.std\<close> is the
  population standard deviation, \<open>np.percentile\<close> interpolates linearly between the two
  order statistics around position \<open>q / 100 * (n - 1)\<close>.
\<close>

definition np_mean :: "real list \<Rightarrow> real" where
  "np_mean x = sum_list x / real (length x)"

definition np_std :: "real list \<Rightarrow> real" where
  "np_std x = sqrt (np_mean (map (\<lambda>v. (v - np_mean x)\<^sup>2) x))"

definition np_percentile :: "real list \<Rightarrow> real \<Rightarrow> real" where
  "np_percentile x q =
     (let s = sort x;
          n = length x;
          pos = q / 100 * (real n - 1);
          lo = nat \<lfloor>pos\<rfloor>;
          hi = min (lo + 1) (n - 1)
      in s ! lo + (pos - real lo) * (s ! hi - s ! lo))"

definition apply_kurtosis_custom ::
  "real list \<Rightarrow> real \<Rightarrow> real \<Rightarrow> real \<Rightarrow> real \<Rightarrow> real \<Rightarrow> real list" where
  "apply_kurtosis_custom x top_percentile reward_factor steepness center_sensitivity boost_factor =
     (if length x = 0 \<or> list_all (\<lambda>v. v = 0) x then replicate (length x) 0
      else
        (let x_centered = map (\<lambda>v. (v - np_mean x) / (np_std x + 1 / 10 ^ 8)) x;
             y1 = map (\<lambda>c. 1 / (1 + exp (- steepness * (c - center_sensitivity)))) x_centered;
             y2 = map2 (\<lambda>a c. a + boost_factor * tanh c) y1 x_centered;
             threshold = np_percentile x top_percentile;
             y3 = map2 (\<lambda>a v. if v \<ge> threshold then a * (1 + reward_factor) else a) y2 x;
             lo = Min (set y3);
             hi = Max (set y3)
         in map (\<lambda>a. (a - lo) / (hi - lo + 1 / 10 ^ 8)) y3))"

text \<open>The call with the default arguments, as \<open>calculate_weights\<close> makes it.\<close>

definition apply_kurtosis_custom_default :: "real list \<Rightarrow> real list" where
  "apply_kurtosis_custom_default x = apply_kurtosis_custom x 90 (4 / 10) 2 (5 / 10) (2 / 10)"

section \<open>The weight calculator: \<open>calculate_weights\<close>\<close>

text \<open>
  What the code does to the outside is recorded as a list of events, in order: the
  calls to external collaborators, the sleeps, and the log entries of level warning and
  error (info and debug entries are left out).
\<close>

datatype log_message =
    NoNodeData
  | NotFoundInMetagraph string
  | FailedAttempt nat
  | ErrorOnAttempt nat py_error
  | FailedAllAttempts

datatype event =
    LogWarning log_message
  | LogError log_message
  | SendScoreReport string real NodeData
  | GetSubstrate
  | BlocksSinceLastUpdate
  | MinIntervalToSetWeights
  | Sleep int
  | SetNodeWeights "py_value list" "real list" "py_value option"

text \<open>
  The slot id of a record: its own \<open>uid\<close> in simulation mode, else
  \<open>metagraph.nodes[node.hotkey].node_id\<close>, which raises \<open>KeyError\<close> for an unknown hotkey.
\<close>

definition resolve_uid :: "bool \<Rightarrow> Validator \<Rightarrow> NodeData \<Rightarrow> py_error + py_value option" where
  "resolve_uid simulation v node =
     (if simulation then Inr (uid node)
      else (case map_of (metagraph_nodes v) (hotkey node) of
              None \<Rightarrow> Inl KeyError
            | Some n \<Rightarrow> Inr (node_id n)))"

text \<open>
  The scoring loop over \<open>enumerate(delta_node_data)\<close>. The state is the dict
  \<open>miner_scores\<close> (in insertion order) and the events so far. Only \<open>KeyError\<close> is caught;
  any other exception ends the loop and leaves the function.
\<close>

fun score_nodes ::
  "bool \<Rightarrow> Validator \<Rightarrow> real list \<Rightarrow> real list \<Rightarrow> real list \<Rightarrow> (nat \<times> NodeData) list \<Rightarrow>
   (py_value \<times> real) list \<times> event list \<Rightarrow> event list \<times> (py_error + (py_value \<times> real) list)" where
  "score_nodes simulation v web_successes tweets profiles [] (miner_scores, evs) =
     (evs, Inr miner_scores)"
| "score_nodes simulation v web_successes tweets profiles ((idx, node) # rest) (miner_scores, evs) =
     (case resolve_uid simulation v node of
        Inl e \<Rightarrow>
          (if e = KeyError then
             score_nodes simulation v web_successes tweets profiles rest
               (miner_scores, evs @ [LogError (NotFoundInMetagraph (hotkey node))])
           else (evs, Inl e))
      | Inr None \<Rightarrow>
          score_nodes simulation v web_successes tweets profiles rest (miner_scores, evs)
      | Inr (Some u) \<Rightarrow>
          (let score = (web_successes ! idx + tweets ! idx + profiles ! idx) / 3;
               miner_scores' = AList.update u score miner_scores;
               evs' = evs @ [SendScoreReport (hotkey node) score node]
           in case send_score_report v (hotkey node) score node of
                ReportSent \<Rightarrow>
                  score_nodes simulation v web_successes tweets profiles rest
                    (miner_scores', evs')
              | ReportRaises e \<Rightarrow>
                  (if e = KeyError then
                     score_nodes simulation v web_successes tweets profiles rest
                       (miner_scores', evs' @ [LogError (NotFoundInMetagraph (hotkey node))])
                   else (evs', Inl e))))"

text \<open>
  The sort key \<open>int(x) if isinstance(x, str) and x.isdigit() else x\<close> of the final
  \<open>sorted(miner_scores.keys(), key=...)\<close>.
\<close>

definition isdigit :: "string \<Rightarrow> bool" where
  "isdigit s \<longleftrightarrow> s \<noteq> [] \<and> list_all (\<lambda>c. c \<in> set ''0123456789'') s"

definition py_int :: "string \<Rightarrow> int" where
  "py_int s = foldl (\<lambda>a c. 10 * a + (int (of_char c) - 48)) 0 s"

definition uid_sort_key :: "py_value \<Rightarrow> py_value" where
  "uid_sort_key x =
     (case x of
        PyStr s \<Rightarrow> if isdigit s then PyInt (py_int s) else PyStr s
      | PyInt i \<Rightarrow> PyInt i)"

text \<open>The part of \<open>calculate_weights\<close> after the score transform: the loop, then the sort.\<close>

definition score_and_sort ::
  "bool \<Rightarrow> Validator \<Rightarrow> real list \<Rightarrow> real list \<Rightarrow> real list \<Rightarrow> (nat \<times> NodeData) list \<Rightarrow>
   event list \<times> (py_error + py_value list \<times> real list)" where
  "score_and_sort simulation v web_successes tweets profiles items =
     (case score_nodes simulation v web_successes tweets profiles items ([], []) of
        (evs, Inl e) \<Rightarrow> (evs, Inl e)
      | (evs, Inr miner_scores) \<Rightarrow>
          (case py_sorted uid_sort_key (map fst miner_scores) of
             Inl e \<Rightarrow> (evs, Inl e)
           | Inr uids \<Rightarrow> (evs, Inr (uids, map (\<lambda>u. the (map_of miner_scores u)) uids))))"

definition calculate_weights ::
  "Validator \<Rightarrow> NodeData list \<Rightarrow> bool \<Rightarrow> event list \<times> (py_error + py_value list \<times> real list)" where
  "calculate_weights v delta_node_data simulation =
     (if delta_node_data = [] then ([LogWarning NoNodeData], Inr ([], []))
      else
        (let web_successes =
               apply_kurtosis_custom_default
                 (map (\<lambda>node. real_of_int (web_success node)) delta_node_data);
             tweets =
               apply_kurtosis_custom_default
                 (map (\<lambda>node. real_of_int (twitter_returned_tweets node)) delta_node_data);
             profiles =
               apply_kurtosis_custom_default
                 (map (\<lambda>node. real_of_int (twitter_returned_profiles node)) delta_node_data)
         in score_and_sort simulation v web_successes tweets profiles
              (enumerate 0 delta_node_data)))"

section \<open>The publisher: \<open>set_weights\<close>\<close>

datatype cycle_result = Done | Failed | Raised py_error

text \<open>
  The loop \<open>for attempt in range(3)\<close>; \<open>call\<close> is the \<open>set_node_weights\<close> call, the
  same at every attempt. \<open>except Exception\<close> catches whatever the call raises.
\<close>

fun submit_attempts :: "Validator \<Rightarrow> event \<Rightarrow> nat list \<Rightarrow> event list \<times> cycle_result" where
  "submit_attempts v call [] = ([LogError FailedAllAttempts], Failed)"
| "submit_attempts v call (attempt # rest) =
     (case set_node_weights v attempt of
        SubmitTrue \<Rightarrow> ([call], Done)
      | SubmitFalse \<Rightarrow>
          (let (evs, r) = submit_attempts v call rest
           in ([call, LogError (FailedAttempt (attempt + 1))] @
               (if attempt < 2 then [Sleep 10] else []) @ evs, r))
      | SubmitRaises e \<Rightarrow>
          (let (evs, r) = submit_attempts v call rest
           in ([call, LogError (ErrorOnAttempt (attempt + 1) e)] @
               (if attempt < 2 then [Sleep 10] else []) @ evs, r)))"

text \<open>
  The second half of \<open>set_weights\<close>: the delta engine and the weight calculation (not
  in simulation mode), then the submission loop. An exception of the computation leaves
  the function before the loop.
\<close>

definition compute_weights :: "Validator \<Rightarrow> event list \<times> (py_error + py_value list \<times> real list)" where
  "compute_weights v =
     (case get_delta_node_data v of
        Inl e \<Rightarrow> ([], Inl e)
      | Inr data_to_score \<Rightarrow> calculate_weights v data_to_score False)"

definition compute_and_submit :: "Validator \<Rightarrow> py_value option \<Rightarrow> event list \<times> cycle_result" where
  "compute_and_submit v validator_node_id =
     (case compute_weights v of
        (evs2, Inl e) \<Rightarrow> (evs2, Raised e)
      | (evs2, Inr (uids, scores)) \<Rightarrow>
          (let (evs3, r) =
                 submit_attempts v (SetNodeWeights uids scores validator_node_id) [0..<3]
           in (evs2 @ evs3, r)))"

text \<open>
  \<open>set_weights\<close>: refresh the connection, look the validator up in the metagraph, query
  the chain, wait once if the last update is too recent, then compute and submit.
\<close>

definition interval_wait :: "int option \<Rightarrow> int \<Rightarrow> event list" where
  "interval_wait blocks_since_update min_interval =
     (case blocks_since_update of
        None \<Rightarrow> []
      | Some b \<Rightarrow> if b < min_interval then [Sleep ((min_interval - b) * 12)] else [])"

definition set_weights :: "Validator \<Rightarrow> event list \<times> cycle_result" where
  "set_weights v =
     (case get_substrate v of
        Some e \<Rightarrow> ([GetSubstrate], Raised e)
      | None \<Rightarrow>
     (case map_of (metagraph_nodes v) (keypair_ss58_address v) of
        None \<Rightarrow> ([GetSubstrate], Raised KeyError)
      | Some n \<Rightarrow>
     (let validator_node_id = node_id n in
      case blocks_since_last_update v of
        Inl e \<Rightarrow> ([GetSubstrate, BlocksSinceLastUpdate], Raised e)
      | Inr blocks_since_update \<Rightarrow>
     (case min_interval_to_set_weights v of
        Inl e \<Rightarrow> ([GetSubstrate, BlocksSinceLastUpdate, MinIntervalToSetWeights], Raised e)
      | Inr min_interval \<Rightarrow>
     (let evs1 = [GetSubstrate, BlocksSinceLastUpdate, MinIntervalToSetWeights] @
                 interval_wait blocks_since_update min_interval;
          (evs2, r) = compute_and_submit v validator_node_id
      in (evs1 @ evs2, r))))))"

section \<open>The specification's words, for comparison with the code\<close>

text \<open>
  A stable sort in descending order of a key: insertion sort, where an element goes in
  front of the elements of the same key that come after it in the input.
\<close>

fun spec_insert_desc :: "('a \<Rightarrow> 'k::linorder) \<Rightarrow> 'a \<Rightarrow> 'a list \<Rightarrow> 'a list" where
  "spec_insert_desc key x [] = [x]"
| "spec_insert_desc key x (y # ys) =
     (if key y \<le> key x then x # y # ys else y # spec_insert_desc key x ys)"

definition spec_stable_sort_desc :: "('a \<Rightarrow> 'k::linorder) \<Rightarrow> 'a list \<Rightarrow> 'a list" where
  "spec_stable_sort_desc key xs = foldr (spec_insert_desc key) xs []"

text \<open>
  Snapshots whose timestamps can be compared: all integers, or all strings; and their
  stable descending sort by timestamp.
\<close>

definition comparable_timestamps :: "NodeData list \<Rightarrow> bool" where
  "comparable_timestamps xs \<longleftrightarrow>
     list_all (\<lambda>s. is_PyInt (timestamp s)) xs \<or> list_all (\<lambda>s. is_PyStr (timestamp s)) xs"

definition spec_sorted_desc :: "NodeData list \<Rightarrow> NodeData list" where
  "spec_sorted_desc xs =
     (if list_all (\<lambda>s. is_PyInt (timestamp s)) xs
      then spec_stable_sort_desc (\<lambda>s. the_int (timestamp s)) xs
      else spec_stable_sort_desc (\<lambda>s. the_str (timestamp s)) xs)"

text \<open>The slot id found in the registry for an identifier, or 0.\<close>

definition spec_registry_uid :: "(string \<times> Node) list \<Rightarrow> string \<Rightarrow> py_value option" where
  "spec_registry_uid nodes hk =
     (case find (\<lambda>(k, nd). node_hotkey nd = hk) nodes of
        None \<Rightarrow> Some (PyInt 0)
      | Some (k, nd) \<Rightarrow> node_id nd)"

text \<open>
  The counters of a record. A record is the delta of a latest and an oldest snapshot when
  each of its counters is the counter of the latest minus the counter of the oldest, an
  integer that may be negative, and its timestamp and slot id are those of the latest. A
  record is a zero record with a slot id when each of its counters is 0 and its slot id
  is the given one.
\<close>

definition spec_counters :: "(NodeData \<Rightarrow> int) list" where
  "spec_counters =
     [boot_time, last_operation_time, current_time, twitter_auth_errors, twitter_errors,
      twitter_ratelimit_errors, twitter_returned_other, twitter_returned_profiles,
      twitter_returned_tweets, twitter_scrapes, web_errors, web_success]"

definition spec_is_delta :: "NodeData \<Rightarrow> NodeData \<Rightarrow> NodeData \<Rightarrow> bool" where
  "spec_is_delta r latest oldest \<longleftrightarrow>
     list_all (\<lambda>counter. counter r = counter latest - counter oldest) spec_counters \<and>
     timestamp r = timestamp latest \<and>
     uid r = uid latest"

definition spec_is_zero :: "NodeData \<Rightarrow> py_value option \<Rightarrow> bool" where
  "spec_is_zero r slot_id \<longleftrightarrow>
     list_all (\<lambda>counter. counter r = 0) spec_counters \<and> uid r = slot_id"

text \<open>
  The snapshots of an identifier: those the store returns for it when the store lists it
  among the identifiers with telemetry (steps 1 and 2 of the algorithm), none otherwise
  (step 5). A record is the specified record of its identifier: the delta of the first and
  the last of the snapshots sorted by descending timestamp when there are two or more,
  else a zero record with the slot id found in the registry.
\<close>

definition spec_snapshots :: "Validator \<Rightarrow> string \<Rightarrow> NodeData list" where
  "spec_snapshots v hk =
     (if hk \<in> set (get_all_hotkeys_with_telemetry (telemetry_storage v))
      then get_telemetry_by_hotkey (telemetry_storage v) hk
      else [])"

definition spec_record_ok :: "Validator \<Rightarrow> NodeData \<Rightarrow> bool" where
  "spec_record_ok v r \<longleftrightarrow>
     (let snapshots = spec_sorted_desc (spec_snapshots v (hotkey r)) in
      if length snapshots \<ge> 2 then spec_is_delta r (hd snapshots) (last snapshots)
      else spec_is_zero r (spec_registry_uid (metagraph_nodes v) (hotkey r)))"

section \<open>Notions used in the statements about the delta engine\<close>

text \<open>
  The sort of the first loop succeeds for every listed hotkey: a hotkey with fewer than
  two snapshots is not sorted, and the snapshots of any other have timestamps of one kind.
\<close>

definition timestamps_sortable :: "Validator \<Rightarrow> bool" where
  "timestamps_sortable v \<longleftrightarrow>
     list_all
       (\<lambda>hk. length (get_telemetry_by_hotkey (telemetry_storage v) hk) < 2 \<or>
             comparable_timestamps (get_telemetry_by_hotkey (telemetry_storage v) hk))
       (get_all_hotkeys_with_telemetry (telemetry_storage v))"

text \<open>The record the first loop appends for a hotkey when the sort succeeds.\<close>

definition listed_record :: "Validator \<Rightarrow> string \<Rightarrow> NodeData" where
  "listed_record v hk =
     (let node_telemetry = get_telemetry_by_hotkey (telemetry_storage v) hk;
          sorted_telemetry = spec_sorted_desc node_telemetry
      in if length node_telemetry \<ge> 2
         then delta_data hk (hd sorted_telemetry) (last sorted_telemetry)
         else zero_node_data hk (find_uid (all_hotkeys (metagraph_nodes v)) hk))"

section \<open>Notions used in the statements about \<open>calculate_weights\<close>\<close>

text \<open>The three transformed metric arrays of a list of records, and the combined score at an index.\<close>

definition web_scores :: "NodeData list \<Rightarrow> real list" where
  "web_scores recs =
     apply_kurtosis_custom_default (map (\<lambda>node. real_of_int (web_success node)) recs)"

definition tweet_scores :: "NodeData list \<Rightarrow> real list" where
  "tweet_scores recs =
     apply_kurtosis_custom_default
       (map (\<lambda>node. real_of_int (twitter_returned_tweets node)) recs)"

definition profile_scores :: "NodeData list \<Rightarrow> real list" where
  "profile_scores recs =
     apply_kurtosis_custom_default
       (map (\<lambda>node. real_of_int (twitter_returned_profiles node)) recs)"

definition combined_score :: "NodeData list \<Rightarrow> nat \<Rightarrow> real" where
  "combined_score recs idx =
     (web_scores recs ! idx + tweet_scores recs ! idx + profile_scores recs ! idx) / 3"

text \<open>The (slot id, score) pairs of the records whose slot id resolves, in record order.\<close>

fun resolved_pairs ::
  "bool \<Rightarrow> Validator \<Rightarrow> (nat \<Rightarrow> real) \<Rightarrow> (nat \<times> NodeData) list \<Rightarrow> (py_value \<times> real) list" where
  "resolved_pairs simulation v score [] = []"
| "resolved_pairs simulation v score ((idx, node) # rest) =
     (case resolve_uid simulation v node of
        Inr (Some u) \<Rightarrow> (u, score idx) # resolved_pairs simulation v score rest
      | _ \<Rightarrow> resolved_pairs simulation v score rest)"

definition resolved_scores :: "bool \<Rightarrow> Validator \<Rightarrow> NodeData list \<Rightarrow> (py_value \<times> real) list" where
  "resolved_scores simulation v recs =
     resolved_pairs simulation v (combined_score recs) (enumerate 0 recs)"

text \<open>The events of one iteration of the scoring loop when the report raises at most \<open>KeyError\<close>.\<close>

definition node_events :: "bool \<Rightarrow> Validator \<Rightarrow> (nat \<Rightarrow> real) \<Rightarrow> nat \<times> NodeData \<Rightarrow> event list" where
  "node_events simulation v score item =
     (case resolve_uid simulation v (snd item) of
        Inl e \<Rightarrow> [LogError (NotFoundInMetagraph (hotkey (snd item)))]
      | Inr None \<Rightarrow> []
      | Inr (Some u) \<Rightarrow>
          SendScoreReport (hotkey (snd item)) (score (fst item)) (snd item) #
          (case send_score_report v (hotkey (snd item)) (score (fst item)) (snd item) of
             ReportSent \<Rightarrow> []
           | ReportRaises e \<Rightarrow> [LogError (NotFoundInMetagraph (hotkey (snd item)))]))"

fun is_SendScoreReport :: "event \<Rightarrow> bool" where
  "is_SendScoreReport (SendScoreReport h s n) = True"
| "is_SendScoreReport e = False"

fun is_log :: "event \<Rightarrow> bool" where
  "is_log (LogWarning m) = True"
| "is_log (LogError m) = True"
| "is_log e = False"

fun is_SetNodeWeights :: "event \<Rightarrow> bool" where
  "is_SetNodeWeights (SetNodeWeights uids scores vid) = True"
| "is_SetNodeWeights e = False"

text \<open>The score report raises nothing but \<open>KeyError\<close>, if it raises at all.\<close>

definition raises_only_KeyError :: "Validator \<Rightarrow> bool" where
  "raises_only_KeyError v \<longleftrightarrow>
     (\<forall>h s n. send_score_report v h s n = ReportSent \<or>
              send_score_report v h s n = ReportRaises KeyError)"

section \<open>Notions used in the statements about \<open>set_weights\<close>\<close>

text \<open>
  The specification's interval loop, read off a list of events: every suspension before
  the first submission is followed, still before the first submission, by a new query of
  the blocks since the last update.
\<close>

fun spec_rechecks_interval :: "event list \<Rightarrow> bool" where
  "spec_rechecks_interval [] = True"
| "spec_rechecks_interval (Sleep s # rest) =
     (BlocksSinceLastUpdate \<in> set (takeWhile (\<lambda>e. \<not> is_SetNodeWeights e) rest) \<and>
      spec_rechecks_interval rest)"
| "spec_rechecks_interval (SetNodeWeights uids scores vid # rest) = True"
| "spec_rechecks_interval (e # rest) = spec_rechecks_interval rest"

text \<open>The exception, if any, of the steps of \<open>set_weights\<close> that come before the submission loop.\<close>

definition error_before_submit :: "Validator \<Rightarrow> py_error option" where
  "error_before_submit v =
     (case get_substrate v of
        Some e \<Rightarrow> Some e
      | None \<Rightarrow>
     (case map_of (metagraph_nodes v) (keypair_ss58_address v) of
        None \<Rightarrow> Some KeyError
      | Some n \<Rightarrow>
     (case blocks_since_last_update v of
        Inl e \<Rightarrow> Some e
      | Inr blocks_since_update \<Rightarrow>
     (case min_interval_to_set_weights v of
        Inl e \<Rightarrow> Some e
      | Inr min_interval \<Rightarrow>
     (case snd (compute_weights v) of
        Inl e \<Rightarrow> Some e
      | Inr r \<Rightarrow> None)))))"

section \<open>Example inputs\<close>

definition example_snapshot :: "string \<Rightarrow> int \<Rightarrow> int \<Rightarrow> NodeData" where
  "example_snapshot hk ts ws =
     (zero_node_data hk (Some (PyInt 7)))\<lparr>timestamp := PyInt ts, web_success := ws\<rparr>"

definition dated_snapshot :: "string \<Rightarrow> string \<Rightarrow> int \<Rightarrow> NodeData" where
  "dated_snapshot hk ts ws =
     (zero_node_data hk (Some (PyInt 9)))\<lparr>timestamp := PyStr ts, web_success := ws\<rparr>"

text \<open>
  A store with telemetry of three hotkeys: \<open>a\<close> with integer timestamps and a counter
  that went down, \<open>b\<close> with a single snapshot, \<open>d\<close> with date strings, two of them
  equal.
\<close>

definition example_storage :: TelemetryStorage where
  "example_storage =
     \<lparr>get_all_hotkeys_with_telemetry = [''a'', ''b'', ''d''],
      get_telemetry_by_hotkey =
        (\<lambda>hk. if hk = ''a'' then [example_snapshot ''a'' 10 7, example_snapshot ''a'' 20 4]
              else if hk = ''b'' then [example_snapshot ''b'' 5 1]
              else if hk = ''d'' then
                [dated_snapshot ''d'' ''2024-01-01 23:59:59'' 5,
                 dated_snapshot ''d'' ''2024-01-02 00:00:00'' 1,
                 dated_snapshot ''d'' ''2024-01-02 00:00:00'' 2]
              else [])\<rparr>"

definition example_validator :: Validator where
  "example_validator =
     \<lparr>metagraph_nodes =
        [(''a'', Node ''a'' (Some (PyInt 1))), (''c'', Node ''c'' (Some (PyInt 3)))],
      telemetry_storage = example_storage,
      keypair_ss58_address = ''c'',
      send_score_report = (\<lambda>h s n. ReportSent),
      get_substrate = None,
      blocks_since_last_update = Inr (Some 5),
      min_interval_to_set_weights = Inr 20,
      set_node_weights = (\<lambda>attempt. SubmitTrue)\<rparr>"

definition example_raising_validator :: "py_error \<Rightarrow> Validator" where
  "example_raising_validator e =
     example_validator\<lparr>send_score_report :=
       (\<lambda>h s n. if h = ''a'' then ReportRaises e else ReportSent)\<rparr>"

text \<open>A validator alone in the metagraph, with no telemetry, 5 blocks after its last update.\<close>

definition example_lone_validator :: Validator where
  "example_lone_validator =
     example_validator\<lparr>
       metagraph_nodes := [(''c'', Node ''c'' (Some (PyInt 3)))],
       telemetry_storage :=
         \<lparr>get_all_hotkeys_with_telemetry = [], get_telemetry_by_hotkey = (\<lambda>hk. [])\<rparr>\<rparr>"

text \<open>A validator whose own hotkey is not in the metagraph.\<close>

definition example_unregistered_validator :: Validator where
  "example_unregistered_validator = example_validator\<lparr>keypair_ss58_address := ''z''\<rparr>"

text \<open>
  Chains that refuse the first submission and raise on the second, and that refuse
  every submission.
\<close>

definition example_retry_validator :: Validator where
  "example_retry_validator =
     example_lone_validator\<lparr>set_node_weights :=
       (\<lambda>attempt. if attempt = 0 then SubmitFalse
                  else if attempt = 1 then SubmitRaises (OtherError ''timeout'')
                  else SubmitTrue)\<rparr>"

definition example_rejected_validator :: Validator where
  "example_rejected_validator =
     example_lone_validator\<lparr>set_node_weights := (\<lambda>attempt. SubmitFalse)\<rparr>"

text \<open>
  The records of \<open>example_validator\<close>: \<open>a\<close> with the counter that went down by 3 and
  the timestamp and slot id of its latest snapshot, \<open>b\<close> with too few snapshots and not
  in the metagraph, \<open>d\<close> with the first of the two snapshots of the latest date minus the
  snapshot of the oldest, \<open>c\<close> without telemetry and with its slot id of the metagraph.
\<close>

definition example_delta_records :: "NodeData list" where
  "example_delta_records =
     [\<lparr>hotkey = ''a'', uid = Some (PyInt 7), worker_id = '''', timestamp = PyInt 20,
       boot_time = 0, last_operation_time = 0, current_time = 0, twitter_auth_errors = 0,
       twitter_errors = 0, twitter_ratelimit_errors = 0, twitter_returned_other = 0,
       twitter_returned_profiles = 0, twitter_returned_tweets = 0, twitter_scrapes = 0,
       web_errors = 0, web_success = - 3\<rparr>,
      \<lparr>hotkey = ''b'', uid = Some (PyInt 0), worker_id = '''', timestamp = PyInt 0,
       boot_time = 0, last_operation_time = 0, current_time = 0, twitter_auth_errors = 0,
       twitter_errors = 0, twitter_ratelimit_errors = 0, twitter_returned_other = 0,
       twitter_returned_profiles = 0, twitter_returned_tweets = 0, twitter_scrapes = 0,
       web_errors = 0, web_success = 0\<rparr>,
      \<lparr>hotkey = ''d'', uid = Some (PyInt 9), worker_id = '''',
       timestamp = PyStr ''2024-01-02 00:00:00'',
       boot_time = 0, last_operation_time = 0, current_time = 0, twitter_auth_errors = 0,
       twitter_errors = 0, twitter_ratelimit_errors = 0, twitter_returned_other = 0,
       twitter_returned_profiles = 0, twitter_returned_tweets = 0, twitter_scrapes = 0,
       web_errors = 0, web_success = - 4\<rparr>,
      \<lparr>hotkey = ''c'', uid = Some (PyInt 3), worker_id = '''', timestamp = PyInt 0,
       boot_time = 0, last_operation_time = 0, current_time = 0, twitter_auth_errors = 0,
       twitter_errors = 0, twitter_ratelimit_errors = 0, twitter_returned_other = 0,
       twitter_returned_profiles = 0, twitter_returned_tweets = 0, twitter_scrapes = 0,
       web_errors = 0, web_success = 0\<rparr>]"

text \<open>A store whose list of hotkeys with telemetry names \<open>a\<close> twice.\<close>

definition example_duplicate_validator :: Validator where
  "example_duplicate_validator =
     example_validator\<lparr>telemetry_storage :=
       example_storage\<lparr>get_all_hotkeys_with_telemetry := [''a'', ''a'']\<rparr>\<rparr>"

text \<open>
  A store that also holds two snapshots of a hotkey \<open>m\<close> that is not in the metagraph,
  one with an integer timestamp and one with a date string.
\<close>

definition example_mixed_unregistered_validator :: Validator where
  "example_mixed_unregistered_validator =
     example_validator\<lparr>telemetry_storage :=
       \<lparr>get_all_hotkeys_with_telemetry = [''a'', ''m''],
        get_telemetry_by_hotkey =
          (\<lambda>hk. if hk = ''a'' then [example_snapshot ''a'' 10 7, example_snapshot ''a'' 20 4]
                else if hk = ''m'' then
                  [example_snapshot ''m'' 10 0, dated_snapshot ''m'' ''2024-01-01 00:00:00'' 0]
                else [])\<rparr>\<rparr>"

text \<open>
  A store that holds two snapshots of the registered hotkey \<open>a\<close>, one with an integer
  timestamp and one with a date string.
\<close>

definition example_mixed_validator :: Validator where
  "example_mixed_validator =
     example_validator\<lparr>telemetry_storage :=
       \<lparr>get_all_hotkeys_with_telemetry = [''a''],
        get_telemetry_by_hotkey =
          (\<lambda>hk. if hk = ''a'' then
                  [example_snapshot ''a'' 10 7, dated_snapshot ''a'' ''2024-01-02 00:00:00'' 4]
                else [])\<rparr>\<rparr>"

section \<open>Properties of the delta engine\<close>

subsection \<open>Python's descending sort is the stable descending sort\<close>

lemma mset_spec_insert_desc: "mset (spec_insert_desc f x ys) = add_mset x (mset ys)"
  by (induction ys) auto

lemma mset_spec_stable_sort_desc: "mset (spec_stable_sort_desc f xs) = mset xs"
  by (induction xs) (auto simp: spec_stable_sort_desc_def mset_spec_insert_desc)

lemma length_spec_stable_sort_desc: "length (spec_stable_sort_desc f xs) = length xs"
  using mset_spec_stable_sort_desc [of f xs] by (metis size_mset)

lemma set_spec_insert_desc: "set (spec_insert_desc f x ys) = insert x (set ys)"
  by (induction ys) auto

lemma sorted_spec_insert_desc:
  "sorted_wrt (\<lambda>a b. f b \<le> f a) ys \<Longrightarrow>
   sorted_wrt (\<lambda>a b. f b \<le> f a) (spec_insert_desc f x ys)"
  by (induction ys) (auto simp: set_spec_insert_desc)

lemma sorted_spec_stable_sort_desc:
  "sorted_wrt (\<lambda>a b. f b \<le> f a) (spec_stable_sort_desc f xs)"
  by (induction xs) (auto simp: spec_stable_sort_desc_def sorted_spec_insert_desc)

lemma filter_spec_insert_desc:
  "filter (\<lambda>y. f y = c) (spec_insert_desc f x ys) =
     (if f x = c then x # filter (\<lambda>y. f y = c) ys else filter (\<lambda>y. f y = c) ys)"
  by (induction ys) auto

lemma filter_spec_stable_sort_desc:
  "filter (\<lambda>y. f y = c) (spec_stable_sort_desc f xs) = filter (\<lambda>y. f y = c) xs"
  by (induction xs) (auto simp: spec_stable_sort_desc_def filter_spec_insert_desc)

text \<open>Reversing, sorting stably upwards and reversing again is the stable descending sort.\<close>

lemma rev_sort_key_rev:
  "rev (sort_key f (rev xs)) = spec_stable_sort_desc f xs"
proof -
  let ?ys = "rev (spec_stable_sort_desc f xs)"
  have "sort_key f (rev xs) = ?ys"
  proof (rule properties_for_sort_key)
    show "mset ?ys = mset (rev xs)" by (simp add: mset_spec_stable_sort_desc)
    show "sorted (map f ?ys)"
      using sorted_spec_stable_sort_desc [of f xs]
      by (simp add: sorted_map sorted_wrt_rev)
    fix k assume "k \<in> set ?ys"
    have "filter (\<lambda>x. f x = f k) ?ys = filter (\<lambda>x. f x = f k) (rev xs)"
      by (simp add: filter_spec_stable_sort_desc flip: rev_filter)
    then show "filter (\<lambda>x. f k = f x) ?ys = filter (\<lambda>x. f k = f x) (rev xs)"
      by (simp add: eq_commute)
  qed
  then show ?thesis by simp
qed

lemma py_sorted_reverse_eq:
  "py_sorted_reverse key xs =
     (if list_all (\<lambda>x. is_PyInt (key x)) xs
      then Inr (spec_stable_sort_desc (\<lambda>x. the_int (key x)) xs)
      else if list_all (\<lambda>x. is_PyStr (key x)) xs
      then Inr (spec_stable_sort_desc (\<lambda>x. the_str (key x)) xs)
      else Inl TypeError)"
  by (simp add: py_sorted_reverse_def py_sorted_def rev_sort_key_rev list_all_iff)

lemma py_sorted_reverse_timestamp:
  "comparable_timestamps xs \<Longrightarrow> py_sorted_reverse timestamp xs = Inr (spec_sorted_desc xs)"
  by (auto simp: py_sorted_reverse_eq comparable_timestamps_def spec_sorted_desc_def)

lemma length_spec_sorted_desc: "length (spec_sorted_desc xs) = length xs"
  by (simp add: spec_sorted_desc_def length_spec_stable_sort_desc)

text \<open>
  The first element of the sorted snapshots is the first snapshot, in the store's order,
  with the greatest key; the last element is the last one with the least.
\<close>

lemma hd_sorted_key:
  assumes "sorted (map f ys)" "ys \<noteq> []"
  shows "f (hd ys) = Min (f ` set ys)"
proof (cases ys)
  case Nil
  with assms show ?thesis by simp
next
  case (Cons y zs)
  with assms have "\<forall>z\<in>set ys. f y \<le> f z" by auto
  then have "Min (f ` set ys) = f y"
    using Cons by (intro Min_eqI) auto
  with Cons show ?thesis by simp
qed

lemma last_sorted_key:
  assumes "sorted (map f ys)" "ys \<noteq> []"
  shows "f (last ys) = Max (f ` set ys)"
proof (cases ys rule: rev_cases)
  case Nil
  with assms show ?thesis by simp
next
  case (snoc zs z)
  with assms have "\<forall>y\<in>set ys. f y \<le> f z" by (auto simp: sorted_append)
  then have "Max (f ` set ys) = f z"
    using snoc by (intro Max_eqI) auto
  with snoc show ?thesis by simp
qed

lemma hd_filter_same:
  "ys \<noteq> [] \<Longrightarrow> hd (filter (\<lambda>y. f y = f (hd ys)) ys) = hd ys"
  by (cases ys) auto

lemma last_filter_same:
  "ys \<noteq> [] \<Longrightarrow> last (filter (\<lambda>y. f y = f (last ys)) ys) = last ys"
  by (cases ys rule: rev_cases) auto

lemma hd_spec_stable_sort_desc:
  assumes "xs \<noteq> []"
  shows "hd (spec_stable_sort_desc f xs) = hd (filter (\<lambda>s. f s = Max (f ` set xs)) xs)"
proof -
  let ?S = "sort_key f (rev xs)"
  have ne: "?S \<noteq> []" using assms by (metis length_sort length_rev length_0_conv)
  have M: "f (last ?S) = Max (f ` set xs)"
    using last_sorted_key [of f ?S] ne by simp
  have "hd (spec_stable_sort_desc f xs) = last ?S"
    by (simp add: hd_rev flip: rev_sort_key_rev)
  also have "\<dots> = last (filter (\<lambda>y. f y = f (last ?S)) ?S)"
    using last_filter_same [OF ne, of f] by simp
  also have "\<dots> = last (filter (\<lambda>y. f y = Max (f ` set xs)) (rev xs))"
    by (simp only: M sort_key_stable)
  also have "\<dots> = hd (filter (\<lambda>s. f s = Max (f ` set xs)) xs)"
    by (simp add: last_rev flip: rev_filter)
  finally show ?thesis .
qed

lemma last_spec_stable_sort_desc:
  assumes "xs \<noteq> []"
  shows "last (spec_stable_sort_desc f xs) = last (filter (\<lambda>s. f s = Min (f ` set xs)) xs)"
proof -
  let ?S = "sort_key f (rev xs)"
  have ne: "?S \<noteq> []" using assms by (metis length_sort length_rev length_0_conv)
  have M: "f (hd ?S) = Min (f ` set xs)"
    using hd_sorted_key [of f ?S] ne by simp
  have "last (spec_stable_sort_desc f xs) = hd ?S"
    by (simp add: last_rev flip: rev_sort_key_rev)
  also have "\<dots> = hd (filter (\<lambda>y. f y = f (hd ?S)) ?S)"
    using hd_filter_same [OF ne, of f] by simp
  also have "\<dots> = hd (filter (\<lambda>y. f y = Min (f ` set xs)) (rev xs))"
    by (simp only: M sort_key_stable)
  also have "\<dots> = last (filter (\<lambda>s. f s = Min (f ` set xs)) xs)"
    by (simp add: hd_rev flip: rev_filter)
  finally show ?thesis .
qed

subsection \<open>The two loops\<close>

lemma find_uid_eq_spec:
  "find_uid (all_hotkeys nodes) hk = spec_registry_uid nodes hk"
  by (induction nodes) (auto simp: find_uid_def all_hotkeys_def spec_registry_uid_def)

lemma py_sorted_reverse_TypeError:
  "\<not> comparable_timestamps xs \<Longrightarrow> py_sorted_reverse timestamp xs = Inl TypeError"
  by (simp add: py_sorted_reverse_def py_sorted_def comparable_timestamps_def list_all_iff)

lemma telemetry_record_cases:
  "telemetry_record (telemetry_storage v) (all_hotkeys (metagraph_nodes v)) hk =
     (if length (get_telemetry_by_hotkey (telemetry_storage v) hk) < 2 \<or>
         comparable_timestamps (get_telemetry_by_hotkey (telemetry_storage v) hk)
      then Inr (listed_record v hk) else Inl TypeError)"
  by (auto simp: telemetry_record_def listed_record_def Let_def py_sorted_reverse_timestamp
      py_sorted_reverse_TypeError)

lemma process_hotkeys_cases:
  assumes "\<And>hk. telemetry_record st allhk hk = (if ok hk then Inr (f hk) else Inl e)"
  shows "process_hotkeys st allhk hks (acc, p) =
         (if list_all ok hks then Inr (acc @ map f hks, p \<union> set hks) else Inl e)"
  by (induction hks arbitrary: acc p) (auto simp: assms)

lemma add_missing_eq:
  "add_missing allhk p acc =
     acc @ map (\<lambda>(u, hk). zero_node_data hk u) (filter (\<lambda>(u, hk). hk \<notin> p) allhk)"
  by (induction allhk arbitrary: acc) auto

text \<open>
  The delta engine returns exactly when every sort succeeds, and then the records of the
  listed hotkeys, in the order of the list, followed by the zero records of the metagraph
  hotkeys that are not listed.
\<close>

lemma get_delta_node_data_eq:
  "get_delta_node_data v =
     (if timestamps_sortable v
      then Inr (map (listed_record v) (get_all_hotkeys_with_telemetry (telemetry_storage v)) @
                map (\<lambda>(u, hk). zero_node_data hk u)
                  (filter
                     (\<lambda>(u, hk). hk \<notin> set (get_all_hotkeys_with_telemetry (telemetry_storage v)))
                     (all_hotkeys (metagraph_nodes v))))
      else Inl TypeError)"
proof -
  note process_hotkeys_cases [OF telemetry_record_cases,
      of v "get_all_hotkeys_with_telemetry (telemetry_storage v)" "[]" "{}"]
  then show ?thesis
    by (simp add: get_delta_node_data_def add_missing_eq Let_def timestamps_sortable_def)
qed

lemma hotkey_listed_record [simp]: "hotkey (listed_record v hk) = hk"
  by (simp add: listed_record_def delta_data_def zero_node_data_def Let_def)

lemma hotkey_zero_node_data [simp]: "hotkey (zero_node_data hk u) = hk"
  by (simp add: zero_node_data_def)

text \<open>The examples, evaluated.\<close>

lemma example_delta_node_data:
  "get_delta_node_data example_validator =
     Inr [delta_data ''a'' (example_snapshot ''a'' 20 4) (example_snapshot ''a'' 10 7),
          zero_node_data ''b'' (Some (PyInt 0)),
          delta_data ''d'' (dated_snapshot ''d'' ''2024-01-02 00:00:00'' 1)
            (dated_snapshot ''d'' ''2024-01-01 23:59:59'' 5),
          zero_node_data ''c'' (Some (PyInt 3))]"
  by (simp add: get_delta_node_data_def example_validator_def example_storage_def
      all_hotkeys_def telemetry_record_def py_sorted_reverse_def py_sorted_def find_uid_def
      example_snapshot_def dated_snapshot_def zero_node_data_def)

lemma example_sortable: "timestamps_sortable example_validator"
  by (simp add: timestamps_sortable_def comparable_timestamps_def example_validator_def
      example_storage_def example_snapshot_def dated_snapshot_def zero_node_data_def)

lemma example_registry: "distinct (map (node_hotkey \<circ> snd) (metagraph_nodes example_validator))"
  by (simp add: example_validator_def)

subsection \<open>One record per registry node\<close>

lemma count_distinct:
  "distinct (map f xs) \<Longrightarrow>
   length (filter (\<lambda>x. f x = a) xs) = (if a \<in> set (map f xs) then 1 else 0)"
  by (induction xs) (auto simp: rev_image_eqI)

lemma distinct_all_hotkeys:
  "distinct (map (node_hotkey \<circ> snd) nodes) \<Longrightarrow> distinct (map snd (all_hotkeys nodes))"
  by (simp add: all_hotkeys_def comp_def case_prod_unfold)

lemma set_all_hotkeys:
  "snd ` set (all_hotkeys nodes) = set (map (node_hotkey \<circ> snd) nodes)"
  by (force simp: all_hotkeys_def)

text \<open>
  Claim C5 as stated fails, in two ways. When the store's list of hotkeys with telemetry
  names the registered hotkey \<open>a\<close> twice, the output has two records of \<open>a\<close>. When the
  store holds, besides the telemetry of the registered hotkey \<open>a\<close>, two snapshots of an
  unregistered hotkey with an integer and a string timestamp, the sort raises
  \<open>TypeError\<close>, the delta engine returns nothing, and no registered hotkey has a record.
\<close>

theorem get_delta_node_data_exactly_once_counterexample:
  "get_delta_node_data example_duplicate_validator =
     Inr [delta_data ''a'' (example_snapshot ''a'' 20 4) (example_snapshot ''a'' 10 7),
          delta_data ''a'' (example_snapshot ''a'' 20 4) (example_snapshot ''a'' 10 7),
          zero_node_data ''c'' (Some (PyInt 3))] \<and>
   get_delta_node_data example_mixed_unregistered_validator = Inl TypeError"
  by (simp add: get_delta_node_data_def example_duplicate_validator_def
      example_mixed_unregistered_validator_def example_validator_def example_storage_def
      all_hotkeys_def telemetry_record_def py_sorted_reverse_def py_sorted_def find_uid_def
      example_snapshot_def dated_snapshot_def zero_node_data_def)

text \<open>
  Claim C5, as amended. When every sort of the first loop succeeds (the snapshots of each
  listed identifier with two snapshots or more have timestamps of one kind), the store
  lists each identifier with telemetry once and the registry holds each identifier once,
  the delta engine returns, and its output has exactly one record for every identifier of
  the registry, whatever telemetry the store holds for it.
\<close>

theorem get_delta_node_data_exactly_once:
  assumes srt: "timestamps_sortable v"
    and tel: "distinct (get_all_hotkeys_with_telemetry (telemetry_storage v))"
    and reg: "distinct (map (node_hotkey \<circ> snd) (metagraph_nodes v))"
    and hk: "hk \<in> set (map (node_hotkey \<circ> snd) (metagraph_nodes v))"
  shows "\<exists>recs. get_delta_node_data v = Inr recs \<and>
           length (filter (\<lambda>r. hotkey r = hk) recs) = 1"
proof -
  let ?all = "all_hotkeys (metagraph_nodes v)"
  let ?hks = "get_all_hotkeys_with_telemetry (telemetry_storage v)"
  have d: "distinct (map snd ?all)"
    using reg by (rule distinct_all_hotkeys)
  have m: "hk \<in> set (map snd ?all)"
    using hk by (simp add: all_hotkeys_def comp_def case_prod_unfold)
  have a: "length (filter (\<lambda>r. hotkey r = hk) (map (listed_record v) ?hks)) =
           (if hk \<in> set ?hks then 1 else 0)"
    using tel count_distinct [of "\<lambda>x. x" ?hks hk] by (simp add: filter_map comp_def)
  have "filter (\<lambda>r. hotkey r = hk)
          (map (\<lambda>(u, h). zero_node_data h u) (filter (\<lambda>(u, h). h \<notin> set ?hks) ?all)) =
        map (\<lambda>(u, h). zero_node_data h u)
          (filter (\<lambda>p. snd p = hk \<and> hk \<notin> set ?hks) ?all)"
  proof -
    have "(\<lambda>x::py_value option \<times> string. snd x \<notin> set ?hks \<and> snd x = hk) =
          (\<lambda>p. snd p = hk \<and> hk \<notin> set ?hks)"
      by auto
    then show ?thesis
      by (simp add: filter_map comp_def case_prod_unfold)
  qed
  moreover have "length (filter (\<lambda>p. snd p = hk \<and> hk \<notin> set ?hks) ?all) =
        (if hk \<in> set ?hks then 0 else 1)"
    using d m by (simp add: count_distinct)
  ultimately have b: "length (filter (\<lambda>r. hotkey r = hk)
          (map (\<lambda>(u, h). zero_node_data h u) (filter (\<lambda>(u, h). h \<notin> set ?hks) ?all))) =
        (if hk \<in> set ?hks then 0 else 1)"
    by simp
  show ?thesis
    unfolding get_delta_node_data_eq using srt a b by simp
qed

theorem get_delta_node_data_exactly_once_witness:
  "length (filter (\<lambda>r. hotkey r = ''c'')
     [delta_data ''a'' (example_snapshot ''a'' 20 4) (example_snapshot ''a'' 10 7),
      zero_node_data ''b'' (Some (PyInt 0)),
      delta_data ''d'' (dated_snapshot ''d'' ''2024-01-02 00:00:00'' 1)
        (dated_snapshot ''d'' ''2024-01-01 23:59:59'' 5),
      zero_node_data ''c'' (Some (PyInt 3))]) = 1 \<and>
   get_delta_node_data example_validator =
     Inr [delta_data ''a'' (example_snapshot ''a'' 20 4) (example_snapshot ''a'' 10 7),
          zero_node_data ''b'' (Some (PyInt 0)),
          delta_data ''d'' (dated_snapshot ''d'' ''2024-01-02 00:00:00'' 1)
            (dated_snapshot ''d'' ''2024-01-01 23:59:59'' 5),
          zero_node_data ''c'' (Some (PyInt 3))]"
proof -
  have tel: "distinct (get_all_hotkeys_with_telemetry (telemetry_storage example_validator))"
    by (simp add: example_validator_def example_storage_def)
  have c: "''c'' \<in> set (map (node_hotkey \<circ> snd) (metagraph_nodes example_validator))"
    by (simp add: example_validator_def)
  show ?thesis
    using get_delta_node_data_exactly_once [OF example_sortable tel example_registry c]
    by (simp add: example_delta_node_data)
qed

subsection \<open>The record of each node\<close>

lemma find_uid_distinct:
  "distinct (map snd allhk) \<Longrightarrow> (u, hk) \<in> set allhk \<Longrightarrow> find_uid allhk hk = u"
  by (induction allhk) (auto simp: find_uid_def rev_image_eqI)

text \<open>The record of a listed hotkey is the specified one.\<close>

lemma listed_record_ok:
  assumes "hk \<in> set (get_all_hotkeys_with_telemetry (telemetry_storage v))"
  shows "spec_record_ok v (listed_record v hk)"
proof -
  have s: "spec_snapshots v (hotkey (listed_record v hk)) =
           get_telemetry_by_hotkey (telemetry_storage v) hk"
    using assms by (simp add: spec_snapshots_def)
  show ?thesis
    unfolding spec_record_ok_def s
    by (simp add: listed_record_def Let_def length_spec_sorted_desc spec_is_delta_def
        spec_is_zero_def spec_counters_def delta_data_def zero_node_data_def find_uid_eq_spec)
qed

text \<open>The zero record of a registered hotkey that is not listed is the specified one.\<close>

lemma missing_record_ok:
  assumes reg: "distinct (map (node_hotkey \<circ> snd) (metagraph_nodes v))"
    and u: "(u, hk) \<in> set (all_hotkeys (metagraph_nodes v))"
    and hk: "hk \<notin> set (get_all_hotkeys_with_telemetry (telemetry_storage v))"
  shows "spec_record_ok v (zero_node_data hk u)"
proof -
  have "distinct (map snd (all_hotkeys (metagraph_nodes v)))"
    using reg by (rule distinct_all_hotkeys)
  then have "find_uid (all_hotkeys (metagraph_nodes v)) hk = u"
    using u by (rule find_uid_distinct)
  then have r: "spec_registry_uid (metagraph_nodes v) hk = u"
    by (simp add: find_uid_eq_spec)
  have s: "spec_snapshots v (hotkey (zero_node_data hk u)) = []"
    using hk by (simp add: spec_snapshots_def)
  show ?thesis
    unfolding spec_record_ok_def s
    by (simp add: r Let_def length_spec_sorted_desc spec_is_zero_def spec_counters_def
        zero_node_data_def)
qed

text \<open>
  Claim C6 as stated fails: the registered hotkey \<open>a\<close> has two snapshots, one with an
  integer timestamp and one with a date string; the sort raises \<open>TypeError\<close>, the delta
  engine returns nothing, and \<open>a\<close> has no delta record.
\<close>

theorem get_delta_node_data_records_counterexample:
  "get_all_hotkeys_with_telemetry (telemetry_storage example_mixed_validator) = [''a''] \<and>
   length (get_telemetry_by_hotkey (telemetry_storage example_mixed_validator) ''a'') = 2 \<and>
   get_delta_node_data example_mixed_validator = Inl TypeError"
  by (simp add: get_delta_node_data_def example_mixed_validator_def example_validator_def
      all_hotkeys_def telemetry_record_def py_sorted_reverse_def py_sorted_def find_uid_def
      example_snapshot_def dated_snapshot_def zero_node_data_def)

text \<open>
  Claim C6, as amended. When the registry holds each identifier once, the delta engine
  returns exactly when every sort of the first loop succeeds (the snapshots of each listed
  identifier with two snapshots or more have timestamps of one kind), and raises
  \<open>TypeError\<close> otherwise. When it returns, its output holds records of the identifiers
  the store lists and of the identifiers of the registry, and of no other, and every
  record is the specified record of its identifier. For an identifier the store lists with
  two snapshots or more: each of the twelve counters is the counter of the latest snapshot
  minus the counter of the oldest, the first and the last of the stable descending sort by
  timestamp, by integer subtraction with nothing clamped, and the timestamp and the slot
  id are those of the latest. For any other identifier: each counter is 0 and the slot id
  is the one found in the registry, or 0.
\<close>

theorem get_delta_node_data_records:
  assumes reg: "distinct (map (node_hotkey \<circ> snd) (metagraph_nodes v))"
  shows "if timestamps_sortable v
         then \<exists>recs. get_delta_node_data v = Inr recs \<and>
                list_all (spec_record_ok v) recs \<and>
                hotkey ` set recs =
                  set (get_all_hotkeys_with_telemetry (telemetry_storage v)) \<union>
                  set (map (node_hotkey \<circ> snd) (metagraph_nodes v))
         else get_delta_node_data v = Inl TypeError"
proof (cases "timestamps_sortable v")
  case False
  then show ?thesis
    by (simp add: get_delta_node_data_eq)
next
  case True
  let ?all = "all_hotkeys (metagraph_nodes v)"
  let ?hks = "get_all_hotkeys_with_telemetry (telemetry_storage v)"
  let ?missing = "filter (\<lambda>(u, hk). hk \<notin> set ?hks) ?all"
  let ?recs = "map (listed_record v) ?hks @ map (\<lambda>(u, hk). zero_node_data hk u) ?missing"
  have r: "get_delta_node_data v = Inr ?recs"
    using True by (simp add: get_delta_node_data_eq)
  have "list_all (spec_record_ok v) (map (listed_record v) ?hks)"
    by (simp add: list_all_iff listed_record_ok)
  moreover have "list_all (spec_record_ok v) (map (\<lambda>(u, hk). zero_node_data hk u) ?missing)"
    using missing_record_ok [OF reg] by (auto simp: list_all_iff)
  ultimately have ok: "list_all (spec_record_ok v) ?recs"
    by simp
  have "hotkey ` set ?recs = set ?hks \<union> snd ` set ?missing"
    by (simp add: image_Un image_image case_prod_unfold)
  also have "\<dots> = set ?hks \<union> snd ` set ?all"
    by (auto simp: rev_image_eqI)
  finally have "hotkey ` set ?recs =
      set ?hks \<union> set (map (node_hotkey \<circ> snd) (metagraph_nodes v))"
    by (simp only: set_all_hotkeys)
  with r ok True show ?thesis
    by simp
qed

lemma example_delta_records_eq:
  "get_delta_node_data example_validator = Inr example_delta_records"
  by (simp add: example_delta_node_data example_delta_records_def delta_data_def
      example_snapshot_def dated_snapshot_def zero_node_data_def)

theorem get_delta_node_data_records_witness:
  "timestamps_sortable example_validator \<and>
   get_delta_node_data example_validator = Inr example_delta_records \<and>
   list_all (spec_record_ok example_validator) example_delta_records \<and>
   hotkey ` set example_delta_records =
     set (get_all_hotkeys_with_telemetry (telemetry_storage example_validator)) \<union>
     set (map (node_hotkey \<circ> snd) (metagraph_nodes example_validator))"
  using get_delta_node_data_records [OF example_registry] example_sortable
  by (simp add: example_delta_records_eq)

section \<open>The score transform in exact arithmetic\<close>

text \<open>
  Over the reals the output of the transform has the length of its input and lies in
  \<open>[0, 1]\<close>, for all parameters. This is a statement about exact arithmetic; it does
  not speak of the rounding and the overflow of float64.
\<close>

lemma min_max_normalise_range:
  fixes ys :: "real list"
  assumes "a \<in> set ys"
  shows "0 \<le> (a - Min (set ys)) / (Max (set ys) - Min (set ys) + 1 / 10 ^ 8)"
    and "(a - Min (set ys)) / (Max (set ys) - Min (set ys) + 1 / 10 ^ 8) \<le> 1"
proof -
  have lo: "Min (set ys) \<le> a" and hi: "a \<le> Max (set ys)"
    using assms by simp_all
  have pos: "0 < Max (set ys) - Min (set ys) + 1 / 10 ^ 8"
    using lo hi by (simp add: add_nonneg_pos)
  show "0 \<le> (a - Min (set ys)) / (Max (set ys) - Min (set ys) + 1 / 10 ^ 8)"
    using lo pos by simp
  have "a - Min (set ys) \<le> Max (set ys) - Min (set ys) + 1 / 10 ^ 8"
    using hi by simp
  then show "(a - Min (set ys)) / (Max (set ys) - Min (set ys) + 1 / 10 ^ 8) \<le> 1"
    using pos by (simp add: divide_le_eq)
qed

lemma apply_kurtosis_custom_exact_range:
  "length (apply_kurtosis_custom x tp rf st cs bf) = length x \<and>
   list_all (\<lambda>w. 0 \<le> w \<and> w \<le> 1) (apply_kurtosis_custom x tp rf st cs bf)"
proof (cases "length x = 0 \<or> list_all (\<lambda>v. v = 0) x")
  case True
  then show ?thesis
    by (auto simp: apply_kurtosis_custom_def list_all_iff)
next
  case False
  define xc where "xc = map (\<lambda>v. (v - np_mean x) / (np_std x + 1 / 10 ^ 8)) x"
  define y1 where "y1 = map (\<lambda>c. 1 / (1 + exp (- st * (c - cs)))) xc"
  define y2 where "y2 = map2 (\<lambda>a c. a + bf * tanh c) y1 xc"
  define y3 where "y3 = map2 (\<lambda>a v. if v \<ge> np_percentile x tp then a * (1 + rf) else a) y2 x"
  have ys: "apply_kurtosis_custom x tp rf st cs bf =
      map (\<lambda>a. (a - Min (set y3)) / (Max (set y3) - Min (set y3) + 1 / 10 ^ 8)) y3"
    unfolding apply_kurtosis_custom_def Let_def y3_def y2_def y1_def xc_def
    using False by (simp only: if_False)
  have len: "length y3 = length x"
    by (simp add: y3_def y2_def y1_def xc_def)
  show ?thesis
    unfolding ys list_all_iff using len min_max_normalise_range [of _ y3] by auto
qed

section \<open>Properties of the weight calculator\<close>


lemma resolve_uid_Inl: "resolve_uid sim v n = Inl e \<Longrightarrow> e = KeyError"
  by (auto simp: resolve_uid_def split: if_splits option.splits)


lemma score_nodes_events:
  assumes "raises_only_KeyError v"
  shows "score_nodes sim v W T P items (ms, evs) =
     (evs @ concat (map (node_events sim v (\<lambda>idx. (W ! idx + T ! idx + P ! idx) / 3)) items),
      Inr (foldl (\<lambda>m (u, s). AList.update u s m) ms
                 (resolved_pairs sim v (\<lambda>idx. (W ! idx + T ! idx + P ! idx) / 3) items)))"
proof (induction items arbitrary: ms evs)
  case Nil
  then show ?case by simp
next
  case (Cons a items)
  obtain idx node where a: "a = (idx, node)" by (cases a)
  have s: "\<And>h s n. send_score_report v h s n = ReportSent \<or>
              send_score_report v h s n = ReportRaises KeyError"
    using assms by (simp add: raises_only_KeyError_def)
  show ?case
  proof (cases "resolve_uid sim v node")
    case (Inl e)
    then have "e = KeyError" by (rule resolve_uid_Inl)
    with Inl show ?thesis unfolding a by (simp add: Cons.IH node_events_def)
  next
    case (Inr r)
    show ?thesis
    proof (cases r)
      case None
      with Inr show ?thesis unfolding a by (simp add: Cons.IH node_events_def)
    next
      case (Some u)
      let ?sc = "(W ! idx + T ! idx + P ! idx) / 3"
      from s [of "hotkey node" ?sc node] show ?thesis
      proof
        assume "send_score_report v (hotkey node) ?sc node = ReportSent"
        with Inr Some show ?thesis unfolding a by (simp add: Cons.IH node_events_def Let_def)
      next
        assume "send_score_report v (hotkey node) ?sc node = ReportRaises KeyError"
        with Inr Some show ?thesis unfolding a by (simp add: Cons.IH node_events_def Let_def)
      qed
    qed
  qed
qed

lemma score_nodes_skip_None:
  assumes "resolve_uid sim v r = Inr None"
  shows "score_nodes sim v W T P (xs @ (i, r) # ys) (ms, evs) =
         score_nodes sim v W T P (xs @ ys) (ms, evs)"
proof (induction xs arbitrary: ms evs)
  case Nil
  with assms show ?case by simp
next
  case (Cons a xs)
  obtain idx node where a: "a = (idx, node)" by (cases a)
  show ?case
    unfolding a using Cons.IH
    by (simp add: Let_def split: sum.splits option.splits report_outcome.splits)
qed


lemma score_nodes_event_kinds:
  "e \<in> set (fst (score_nodes sim v W T P items (ms, evs))) \<Longrightarrow>
   e \<in> set evs \<or> is_log e \<or> is_SendScoreReport e"
proof (induction items arbitrary: ms evs)
  case Nil
  then show ?case by simp
next
  case (Cons a items)
  obtain idx node where a: "a = (idx, node)" by (cases a)
  show ?case
    using Cons.prems Cons.IH unfolding a
    by (fastforce simp: Let_def split: sum.splits option.splits report_outcome.splits if_splits)
qed

lemma calculate_weights_eq:
  "calculate_weights v recs sim =
     (if recs = [] then ([LogWarning NoNodeData], Inr ([], []))
      else score_and_sort sim v (web_scores recs) (tweet_scores recs) (profile_scores recs)
             (enumerate 0 recs))"
  by (simp add: calculate_weights_def web_scores_def tweet_scores_def profile_scores_def Let_def)




lemma combined_score_eq:
  "(\<lambda>idx. (web_scores recs ! idx + tweet_scores recs ! idx + profile_scores recs ! idx) / 3) =
   combined_score recs"
  by (simp add: combined_score_def fun_eq_iff)






lemma fst_score_and_sort:
  "fst (score_and_sort sim v W T P items) = fst (score_nodes sim v W T P items ([], []))"
  by (simp add: score_and_sort_def split: prod.splits sum.splits)

lemma calculate_weights_events:
  assumes "raises_only_KeyError v" "recs \<noteq> []"
  shows "fst (calculate_weights v recs sim) =
         concat (map (node_events sim v (combined_score recs)) (enumerate 0 recs))"
  using assms score_nodes_events [of v sim "web_scores recs" "tweet_scores recs"
        "profile_scores recs" "enumerate 0 recs" "[]" "[]"]
  by (simp add: calculate_weights_eq fst_score_and_sort combined_score_eq)


lemma resolve_uid_send_score_report:
  "resolve_uid sim (v\<lparr>send_score_report := f\<rparr>) n = resolve_uid sim v n"
  by (simp add: resolve_uid_def)

lemma resolved_pairs_send_score_report:
  "resolved_pairs sim (v\<lparr>send_score_report := f\<rparr>) score items =
   resolved_pairs sim v score items"
  by (induction items)
    (auto simp: resolve_uid_send_score_report split: sum.splits option.splits)

text \<open>
  Claim C4, as amended. When the score report raises at most \<open>KeyError\<close>, the weight
  calculation is not aborted: its result is the one it has when every report succeeds,
  and its events are, record by record, the report followed by an error log entry where
  the report raised. The record whose report raised keeps its score and the records
  after it are scored and reported.
\<close>

theorem calculate_weights_report_KeyError:
  assumes "raises_only_KeyError v"
  shows "snd (calculate_weights v recs sim) =
           snd (calculate_weights (v\<lparr>send_score_report := (\<lambda>h s n. ReportSent)\<rparr>) recs sim) \<and>
         (recs \<noteq> [] \<longrightarrow>
            fst (calculate_weights v recs sim) =
              concat (map (node_events sim v (combined_score recs)) (enumerate 0 recs)))"
proof (intro conjI impI)
  let ?ok = "v\<lparr>send_score_report := (\<lambda>h s n. ReportSent)\<rparr>"
  have ok: "raises_only_KeyError ?ok" by (simp add: raises_only_KeyError_def)
  have r: "\<And>items score. resolved_pairs sim ?ok score items = resolved_pairs sim v score items"
    by (rule resolved_pairs_send_score_report)
  show "snd (calculate_weights v recs sim) = snd (calculate_weights ?ok recs sim)"
    using score_nodes_events [OF assms, of sim "web_scores recs" "tweet_scores recs"
        "profile_scores recs" "enumerate 0 recs" "[]" "[]"]
      score_nodes_events [OF ok, of sim "web_scores recs" "tweet_scores recs"
        "profile_scores recs" "enumerate 0 recs" "[]" "[]"]
    by (simp add: calculate_weights_eq score_and_sort_def r split: sum.splits)
next
  assume "recs \<noteq> []"
  with assms show "fst (calculate_weights v recs sim) =
              concat (map (node_events sim v (combined_score recs)) (enumerate 0 recs))"
    by (rule calculate_weights_events)
qed

text \<open>
  Claim C10. A record whose slot id resolves to \<open>None\<close> (its own \<open>uid\<close> in simulation
  mode, the \<open>node_id\<close> of its metagraph node otherwise) leaves no trace: the result and
  the events of the calculation are those of the loop run without that record's
  iteration (the record still counts in the score transform of the others), and the
  iteration itself has no event, neither a score report nor an error log entry.
\<close>

theorem calculate_weights_None_uid:
  assumes "resolve_uid sim v r = Inr None"
  shows "calculate_weights v (pre @ r # post) sim =
           score_and_sort sim v (web_scores (pre @ r # post)) (tweet_scores (pre @ r # post))
             (profile_scores (pre @ r # post))
             (enumerate 0 pre @ enumerate (Suc (length pre)) post) \<and>
         node_events sim v score (idx, r) = []"
proof
  have "enumerate 0 (pre @ r # post) =
        enumerate 0 pre @ (length pre, r) # enumerate (Suc (length pre)) post"
    by (simp add: enumerate_append_eq)
  then show "calculate_weights v (pre @ r # post) sim =
           score_and_sort sim v (web_scores (pre @ r # post)) (tweet_scores (pre @ r # post))
             (profile_scores (pre @ r # post))
             (enumerate 0 pre @ enumerate (Suc (length pre)) post)"
    using score_nodes_skip_None [OF assms]
    by (simp add: calculate_weights_eq score_and_sort_def)
  show "node_events sim v score (idx, r) = []"
    using assms by (simp add: node_events_def)
qed

text \<open>All-zero metrics are transformed to zeros: the scores of the examples below.\<close>

lemma zero_scores:
  "apply_kurtosis_custom_default (map (\<lambda>node. 0) recs) = replicate (length recs) 0"
  by (simp add: apply_kurtosis_custom_default_def apply_kurtosis_custom_def list_all_iff)



text \<open>
  Claim C4 as stated fails: a report that raises an error other than \<open>KeyError\<close> ends
  the calculation with that error; the second record is never scored.
\<close>

theorem calculate_weights_report_counterexample:
  "calculate_weights (example_raising_validator (OtherError ''ConnectionError''))
       [zero_node_data ''a'' None, zero_node_data ''c'' None] False =
     ([SendScoreReport ''a'' 0 (zero_node_data ''a'' None)], Inl (OtherError ''ConnectionError''))"
  by (simp add: calculate_weights_def score_and_sort_def resolve_uid_def example_validator_def
      example_raising_validator_def
      zero_node_data_def py_sorted_def uid_sort_key_def
      apply_kurtosis_custom_default_def apply_kurtosis_custom_def)

section \<open>Properties of the publisher\<close>

lemma upt_0_3: "[0..<3] = [0, 1, 2]"
  by (simp add: upt_rec)

lemma submit_attempts_count:
  "length (filter is_SetNodeWeights (fst (submit_attempts v call xs))) \<le> length xs"
  by (induction xs) (auto simp: Let_def split: submit_outcome.splits prod.splits)

lemma submit_attempts_event_kinds:
  "e \<in> set (fst (submit_attempts v call xs)) \<Longrightarrow> e = call \<or> is_log e \<or> e = Sleep 10"
  by (induction xs) (auto simp: Let_def split: submit_outcome.splits prod.splits if_splits)

lemma submit_attempts_never_raises:
  "snd (submit_attempts v call xs) \<noteq> Raised e"
  by (induction xs) (auto simp: Let_def split: submit_outcome.splits prod.splits)

lemma calculate_weights_event_kinds:
  "e \<in> set (fst (calculate_weights v recs sim)) \<Longrightarrow> is_log e \<or> is_SendScoreReport e"
  using score_nodes_event_kinds [of e sim v "web_scores recs" "tweet_scores recs"
          "profile_scores recs" "enumerate 0 recs" "[]" "[]"]
  by (cases "recs = []") (auto simp: calculate_weights_eq fst_score_and_sort)

lemma calculate_weights_no_submit:
  "filter is_SetNodeWeights (fst (calculate_weights v recs sim)) = []"
proof -
  have "\<not> is_SetNodeWeights e" if "e \<in> set (fst (calculate_weights v recs sim))" for e
    using calculate_weights_event_kinds [OF that] by (cases e) auto
  then show ?thesis by (simp add: filter_empty_conv)
qed

lemma compute_weights_event_kinds:
  "e \<in> set (fst (compute_weights v)) \<Longrightarrow> is_log e \<or> is_SendScoreReport e"
  using calculate_weights_event_kinds [of e v _ False]
  by (auto simp: compute_weights_def split: sum.splits)

lemma compute_weights_no_submit:
  "filter is_SetNodeWeights (fst (compute_weights v)) = []"
proof -
  have "\<not> is_SetNodeWeights e" if "e \<in> set (fst (compute_weights v))" for e
    using compute_weights_event_kinds [OF that] by (cases e) auto
  then show ?thesis by (simp add: filter_empty_conv)
qed

lemma compute_and_submit_eq:
  "compute_and_submit v vid =
     (case snd (compute_weights v) of
        Inl e \<Rightarrow> (fst (compute_weights v), Raised e)
      | Inr r \<Rightarrow>
          (fst (compute_weights v) @
           fst (submit_attempts v (SetNodeWeights (fst r) (snd r) vid) [0..<3]),
           snd (submit_attempts v (SetNodeWeights (fst r) (snd r) vid) [0..<3])))"
  by (simp add: compute_and_submit_def Let_def case_prod_unfold split: sum.splits)

lemma set_weights_eq:
  assumes "get_substrate v = None"
    and "map_of (metagraph_nodes v) (keypair_ss58_address v) = Some n"
    and "blocks_since_last_update v = Inr bsu"
    and "min_interval_to_set_weights v = Inr mi"
  shows "set_weights v =
     ([GetSubstrate, BlocksSinceLastUpdate, MinIntervalToSetWeights] @ interval_wait bsu mi @
      fst (compute_and_submit v (node_id n)), snd (compute_and_submit v (node_id n)))"
  using assms by (simp add: set_weights_def Let_def case_prod_unfold)

lemma interval_wait_no_submit: "filter is_SetNodeWeights (interval_wait bsu mi) = []"
  by (simp add: interval_wait_def split: option.splits)

lemma compute_and_submit_submissions:
  "filter is_SetNodeWeights (fst (compute_and_submit v vid)) =
     (case snd (compute_weights v) of
        Inl e \<Rightarrow> []
      | Inr r \<Rightarrow>
          filter is_SetNodeWeights
            (fst (submit_attempts v (SetNodeWeights (fst r) (snd r) vid) [0..<3])))"
  by (simp add: compute_and_submit_eq compute_weights_no_submit split: sum.splits)

lemma compute_and_submit_result:
  "snd (compute_and_submit v vid) =
     (case snd (compute_weights v) of
        Inl e \<Rightarrow> Raised e
      | Inr r \<Rightarrow>
          snd (submit_attempts v (SetNodeWeights (fst r) (snd r) vid) [0..<3]))"
  by (simp add: compute_and_submit_eq split: sum.splits)

lemma submit_attempts_result:
  "snd (submit_attempts v call [0..<3]) =
     (case find (\<lambda>k. set_node_weights v k = SubmitTrue) [0..<3] of
        Some k \<Rightarrow> Done | None \<Rightarrow> Failed)"
  by (simp add: upt_0_3 Let_def split: submit_outcome.splits prod.splits)

lemma submit_attempts_trace:
  "filter (\<lambda>e. \<not> is_log e) (fst (submit_attempts v (SetNodeWeights uids scores vid) [0..<3])) =
     (case find (\<lambda>k. set_node_weights v k = SubmitTrue) [0..<3] of
        Some k \<Rightarrow>
          concat (replicate k [SetNodeWeights uids scores vid, Sleep 10]) @
          [SetNodeWeights uids scores vid]
      | None \<Rightarrow>
          [SetNodeWeights uids scores vid, Sleep 10,
           SetNodeWeights uids scores vid, Sleep 10,
           SetNodeWeights uids scores vid])"
  by (simp add: upt_0_3 Let_def numeral_2_eq_2 split: submit_outcome.splits prod.splits)

lemma set_weights_submissions:
  "filter is_SetNodeWeights (fst (set_weights v)) =
     (case error_before_submit v of
        Some e \<Rightarrow> []
      | None \<Rightarrow>
          filter is_SetNodeWeights (fst (compute_and_submit v
            (node_id (the (map_of (metagraph_nodes v) (keypair_ss58_address v)))))))"
proof (cases "get_substrate v")
  case (Some e)
  then show ?thesis by (simp add: set_weights_def error_before_submit_def)
next
  case None
  note gs = this
  show ?thesis
  proof (cases "map_of (metagraph_nodes v) (keypair_ss58_address v)")
    case None
    with gs show ?thesis by (simp add: set_weights_def error_before_submit_def)
  next
    case (Some n)
    note reg = this
    show ?thesis
    proof (cases "blocks_since_last_update v")
      case (Inl e)
      with gs reg show ?thesis by (simp add: set_weights_def error_before_submit_def)
    next
      case (Inr bsu)
      note b = this
      show ?thesis
      proof (cases "min_interval_to_set_weights v")
        case (Inl e)
        with gs reg b show ?thesis by (simp add: set_weights_def error_before_submit_def)
      next
        case (Inr mi)
        show ?thesis
          using gs reg b Inr
          by (simp add: set_weights_eq [OF gs reg b Inr] error_before_submit_def
              interval_wait_no_submit compute_and_submit_submissions split: sum.splits)
      qed
    qed
  qed
qed

lemma set_weights_result:
  "snd (set_weights v) =
     (case error_before_submit v of
        Some e \<Rightarrow> Raised e
      | None \<Rightarrow>
          (case find (\<lambda>k. set_node_weights v k = SubmitTrue) [0..<3] of
             Some k \<Rightarrow> Done | None \<Rightarrow> Failed))"
  by (simp add: set_weights_def error_before_submit_def Let_def compute_and_submit_result
      submit_attempts_result case_prod_unfold
      split: option.splits sum.splits)

lemma error_before_submit_None:
  assumes "error_before_submit v = None"
  obtains n bsu mi r where "get_substrate v = None"
    and "map_of (metagraph_nodes v) (keypair_ss58_address v) = Some n"
    and "blocks_since_last_update v = Inr bsu"
    and "min_interval_to_set_weights v = Inr mi"
    and "snd (compute_weights v) = Inr r"
  using assms
  by (auto simp: error_before_submit_def split: option.splits sum.splits)

lemma compute_and_submit_no_query:
  "BlocksSinceLastUpdate \<notin> set (fst (compute_and_submit v vid))"
proof
  assume a: "BlocksSinceLastUpdate \<in> set (fst (compute_and_submit v vid))"
  show False
  proof (cases "snd (compute_weights v)")
    case (Inl e)
    with a show False
      using compute_weights_event_kinds [of BlocksSinceLastUpdate v]
      by (simp add: compute_and_submit_eq)
  next
    case (Inr r)
    with a show False
      using compute_weights_event_kinds [of BlocksSinceLastUpdate v]
        submit_attempts_event_kinds [of BlocksSinceLastUpdate v
          "SetNodeWeights (fst r) (snd r) vid" "[0..<3]"]
      by (auto simp: compute_and_submit_eq)
  qed
qed

text \<open>
  Claim C2, as amended. When the steps up to the two chain queries succeed, the events of
  the cycle are: the connection refresh, one query of the blocks since the last update,
  one query of the minimum interval, then one suspension of
  \<open>(min_interval - blocks_since_update) * 12\<close> seconds if the blocks are known and fewer
  than the minimum interval (none otherwise), then the computation and the submission.
  The blocks since the last update are not queried again.
\<close>

theorem set_weights_waits_once:
  assumes "get_substrate v = None"
    and "map_of (metagraph_nodes v) (keypair_ss58_address v) = Some n"
    and "blocks_since_last_update v = Inr bsu"
    and "min_interval_to_set_weights v = Inr mi"
  shows "fst (set_weights v) =
           [GetSubstrate, BlocksSinceLastUpdate, MinIntervalToSetWeights] @
           (case bsu of
              None \<Rightarrow> []
            | Some b \<Rightarrow> if b < mi then [Sleep ((mi - b) * 12)] else []) @
           fst (compute_and_submit v (node_id n)) \<and>
         BlocksSinceLastUpdate \<notin> set (fst (compute_and_submit v (node_id n)))"
  using set_weights_eq [OF assms] compute_and_submit_no_query [of v "node_id n"]
  by (simp add: interval_wait_def)

text \<open>
  Claim C3. A cycle has at most three submissions. When it reaches the submission loop,
  its events end with those of the loop, and nothing was submitted before; the loop,
  log entries aside, is: a submission and a 10 second sleep for each attempt before the
  first successful one, then the successful submission, and the cycle ends as done; with
  no successful attempt among the three, three submissions with a sleep between them and
  none after the last, and the cycle ends as failed. What the submission raises never
  leaves the loop.
\<close>

theorem set_weights_retry:
  "length (filter is_SetNodeWeights (fst (set_weights v))) \<le> 3 \<and>
   (error_before_submit v = None \<longrightarrow>
      (\<exists>pre uids scores vid.
         fst (set_weights v) =
           pre @ fst (submit_attempts v (SetNodeWeights uids scores vid) [0..<3]) \<and>
         filter is_SetNodeWeights pre = [] \<and>
         filter (\<lambda>e. \<not> is_log e)
             (fst (submit_attempts v (SetNodeWeights uids scores vid) [0..<3])) =
           (case find (\<lambda>k. set_node_weights v k = SubmitTrue) [0..<3] of
              Some k \<Rightarrow>
                concat (replicate k [SetNodeWeights uids scores vid, Sleep 10]) @
                [SetNodeWeights uids scores vid]
            | None \<Rightarrow>
                [SetNodeWeights uids scores vid, Sleep 10,
                 SetNodeWeights uids scores vid, Sleep 10,
                 SetNodeWeights uids scores vid]) \<and>
         snd (set_weights v) =
           (case find (\<lambda>k. set_node_weights v k = SubmitTrue) [0..<3] of
              Some k \<Rightarrow> Done | None \<Rightarrow> Failed)))"
proof (intro conjI impI)
  show "length (filter is_SetNodeWeights (fst (set_weights v))) \<le> 3"
    using submit_attempts_count [of v _ "[0..<3]"]
    by (simp add: set_weights_submissions compute_and_submit_submissions
        split: option.splits sum.splits)
next
  assume ok: "error_before_submit v = None"
  then obtain n bsu mi r where pre: "get_substrate v = None"
    "map_of (metagraph_nodes v) (keypair_ss58_address v) = Some n"
    "blocks_since_last_update v = Inr bsu"
    "min_interval_to_set_weights v = Inr mi"
    and r: "snd (compute_weights v) = Inr r"
    by (rule error_before_submit_None)
  let ?pre = "[GetSubstrate, BlocksSinceLastUpdate, MinIntervalToSetWeights] @
      interval_wait bsu mi @ fst (compute_weights v)"
  let ?call = "SetNodeWeights (fst r) (snd r) (node_id n)"
  have 1: "fst (set_weights v) = ?pre @ fst (submit_attempts v ?call [0..<3])"
    by (simp add: set_weights_eq [OF pre] compute_and_submit_eq r)
  have 2: "filter is_SetNodeWeights ?pre = []"
    by (simp add: interval_wait_no_submit compute_weights_no_submit)
  have 3: "snd (set_weights v) =
           (case find (\<lambda>k. set_node_weights v k = SubmitTrue) [0..<3] of
              Some k \<Rightarrow> Done | None \<Rightarrow> Failed)"
    by (simp add: set_weights_result ok)
  show "\<exists>pre uids scores vid.
         fst (set_weights v) =
           pre @ fst (submit_attempts v (SetNodeWeights uids scores vid) [0..<3]) \<and>
         filter is_SetNodeWeights pre = [] \<and>
         filter (\<lambda>e. \<not> is_log e)
             (fst (submit_attempts v (SetNodeWeights uids scores vid) [0..<3])) =
           (case find (\<lambda>k. set_node_weights v k = SubmitTrue) [0..<3] of
              Some k \<Rightarrow>
                concat (replicate k [SetNodeWeights uids scores vid, Sleep 10]) @
                [SetNodeWeights uids scores vid]
            | None \<Rightarrow>
                [SetNodeWeights uids scores vid, Sleep 10,
                 SetNodeWeights uids scores vid, Sleep 10,
                 SetNodeWeights uids scores vid]) \<and>
         snd (set_weights v) =
           (case find (\<lambda>k. set_node_weights v k = SubmitTrue) [0..<3] of
              Some k \<Rightarrow> Done | None \<Rightarrow> Failed)"
    using 1 2 3 submit_attempts_trace [of v "fst r" "snd r" "node_id n"] by blast
qed

text \<open>
  Claim C9, as amended. The cycle raises exactly when a step before the submission loop
  raises (the connection refresh, the lookup of the validator's own hotkey in the
  metagraph, the two chain queries, the delta engine, the weight calculation); otherwise
  it ends as done or failed. When it raises, nothing was submitted. Every submission carries the complete
  result of the weight calculation.
\<close>

theorem set_weights_all_or_nothing:
  "snd (set_weights v) =
     (case error_before_submit v of
        Some e \<Rightarrow> Raised e
      | None \<Rightarrow>
          (case find (\<lambda>k. set_node_weights v k = SubmitTrue) [0..<3] of
             Some k \<Rightarrow> Done | None \<Rightarrow> Failed)) \<and>
   (error_before_submit v \<noteq> None \<longrightarrow> filter is_SetNodeWeights (fst (set_weights v)) = []) \<and>
   list_all
     (\<lambda>ev. \<exists>n uids scores.
        map_of (metagraph_nodes v) (keypair_ss58_address v) = Some n \<and>
        snd (compute_weights v) = Inr (uids, scores) \<and>
        ev = SetNodeWeights uids scores (node_id n))
     (filter is_SetNodeWeights (fst (set_weights v)))"
proof (intro conjI impI)
  show "snd (set_weights v) =
     (case error_before_submit v of
        Some e \<Rightarrow> Raised e
      | None \<Rightarrow>
          (case find (\<lambda>k. set_node_weights v k = SubmitTrue) [0..<3] of
             Some k \<Rightarrow> Done | None \<Rightarrow> Failed))"
    by (rule set_weights_result)
next
  assume "error_before_submit v \<noteq> None"
  then show "filter is_SetNodeWeights (fst (set_weights v)) = []"
    by (auto simp: set_weights_submissions)
next
  show "list_all
     (\<lambda>ev. \<exists>n uids scores.
        map_of (metagraph_nodes v) (keypair_ss58_address v) = Some n \<and>
        snd (compute_weights v) = Inr (uids, scores) \<and>
        ev = SetNodeWeights uids scores (node_id n))
     (filter is_SetNodeWeights (fst (set_weights v)))"
  proof (cases "error_before_submit v")
    case (Some e)
    then show ?thesis by (simp add: set_weights_submissions)
  next
    case None
    then obtain n bsu mi r where pre: "get_substrate v = None"
      "map_of (metagraph_nodes v) (keypair_ss58_address v) = Some n"
      "blocks_since_last_update v = Inr bsu"
      "min_interval_to_set_weights v = Inr mi"
      and r: "snd (compute_weights v) = Inr r"
      by (rule error_before_submit_None)
    let ?call = "SetNodeWeights (fst r) (snd r) (node_id n)"
    have "ev = ?call" if "ev \<in> set (fst (submit_attempts v ?call [0..<3]))"
      "is_SetNodeWeights ev" for ev
      using submit_attempts_event_kinds [OF that(1)] that(2) by (cases ev) auto
    then show ?thesis
      using pre r None
      by (auto simp: set_weights_submissions compute_and_submit_submissions list_all_iff
          intro!: exI [of _ "fst r"] exI [of _ "snd r"])
  qed
qed

section \<open>The theorems at concrete inputs\<close>

text \<open>
  Each theorem above that has a hypothesis is applied here to one of the example inputs,
  with the definitions evaluated by the simplifier; the inputs on which a claim fails as
  stated are evaluated in the same way.
\<close>

lemmas evaluation_defs =
  set_weights_def compute_and_submit_def compute_weights_def interval_wait_def
  get_delta_node_data_def all_hotkeys_def telemetry_record_def find_uid_def
  py_sorted_reverse_def calculate_weights_def score_and_sort_def resolve_uid_def py_sorted_def uid_sort_key_def
  apply_kurtosis_custom_default_def apply_kurtosis_custom_def
  zero_node_data_def upt_0_3 Let_def
  example_validator_def example_storage_def example_lone_validator_def
  example_raising_validator_def example_unregistered_validator_def
  example_retry_validator_def example_rejected_validator_def

lemmas score_defs =
  resolved_scores_def combined_score_def web_scores_def tweet_scores_def profile_scores_def
  enumerate_simps isdigit_def py_int_def node_events_def

lemma example_lone_set_weights:
  "set_weights example_lone_validator =
     ([GetSubstrate, BlocksSinceLastUpdate, MinIntervalToSetWeights, Sleep 180,
       SendScoreReport ''c'' 0 (zero_node_data ''c'' (Some (PyInt 3))),
       SetNodeWeights [PyInt 3] [0] (Some (PyInt 3))], Done)"
  by (simp add: evaluation_defs)

text \<open>
  Claim C2 as stated fails: 5 blocks after the last update with a minimum interval of 20,
  the cycle sleeps 180 seconds and submits without a second look at the interval.
\<close>

theorem set_weights_recheck_counterexample:
  "fst (set_weights example_lone_validator) =
     [GetSubstrate, BlocksSinceLastUpdate, MinIntervalToSetWeights, Sleep 180,
      SendScoreReport ''c'' 0 (zero_node_data ''c'' (Some (PyInt 3))),
      SetNodeWeights [PyInt 3] [0] (Some (PyInt 3))] \<and>
   \<not> spec_rechecks_interval (fst (set_weights example_lone_validator))"
  by (simp add: example_lone_set_weights)

theorem set_weights_waits_once_witness:
  "fst (set_weights example_lone_validator) =
     [GetSubstrate, BlocksSinceLastUpdate, MinIntervalToSetWeights, Sleep ((20 - 5) * 12)] @
     fst (compute_and_submit example_lone_validator (Some (PyInt 3))) \<and>
   BlocksSinceLastUpdate \<notin> set (fst (compute_and_submit example_lone_validator (Some (PyInt 3))))"
proof -
  have "get_substrate example_lone_validator = None"
    and "map_of (metagraph_nodes example_lone_validator)
           (keypair_ss58_address example_lone_validator) = Some (Node ''c'' (Some (PyInt 3)))"
    and "blocks_since_last_update example_lone_validator = Inr (Some 5)"
    and "min_interval_to_set_weights example_lone_validator = Inr 20"
    by (simp_all add: example_lone_validator_def example_validator_def)
  from set_weights_waits_once [OF this] show ?thesis by simp
qed

theorem set_weights_retry_witness:
  "error_before_submit example_retry_validator = None \<and>
   find (\<lambda>k. set_node_weights example_retry_validator k = SubmitTrue) [0..<3] = Some 2 \<and>
   snd (set_weights example_retry_validator) = Done \<and>
   length (filter is_SetNodeWeights (fst (set_weights example_retry_validator))) \<le> 3 \<and>
   fst (set_weights example_retry_validator) =
     [GetSubstrate, BlocksSinceLastUpdate, MinIntervalToSetWeights, Sleep 180,
      SendScoreReport ''c'' 0 (zero_node_data ''c'' (Some (PyInt 3))),
      SetNodeWeights [PyInt 3] [0] (Some (PyInt 3)), LogError (FailedAttempt 1), Sleep 10,
      SetNodeWeights [PyInt 3] [0] (Some (PyInt 3)),
      LogError (ErrorOnAttempt 2 (OtherError ''timeout'')), Sleep 10,
      SetNodeWeights [PyInt 3] [0] (Some (PyInt 3))] \<and>
   error_before_submit example_rejected_validator = None \<and>
   snd (set_weights example_rejected_validator) = Failed \<and>
   fst (set_weights example_rejected_validator) =
     [GetSubstrate, BlocksSinceLastUpdate, MinIntervalToSetWeights, Sleep 180,
      SendScoreReport ''c'' 0 (zero_node_data ''c'' (Some (PyInt 3))),
      SetNodeWeights [PyInt 3] [0] (Some (PyInt 3)), LogError (FailedAttempt 1), Sleep 10,
      SetNodeWeights [PyInt 3] [0] (Some (PyInt 3)), LogError (FailedAttempt 2), Sleep 10,
      SetNodeWeights [PyInt 3] [0] (Some (PyInt 3)), LogError (FailedAttempt 3),
      LogError FailedAllAttempts]"
proof -
  have e: "error_before_submit example_retry_validator = None"
    "error_before_submit example_rejected_validator = None"
    by (simp_all add: error_before_submit_def evaluation_defs)
  have f: "find (\<lambda>k. set_node_weights example_retry_validator k = SubmitTrue) [0..<3] = Some 2"
    "find (\<lambda>k. set_node_weights example_rejected_validator k = SubmitTrue) [0..<3] = None"
    by (simp_all add: evaluation_defs)
  have t: "fst (set_weights example_retry_validator) =
     [GetSubstrate, BlocksSinceLastUpdate, MinIntervalToSetWeights, Sleep 180,
      SendScoreReport ''c'' 0 (zero_node_data ''c'' (Some (PyInt 3))),
      SetNodeWeights [PyInt 3] [0] (Some (PyInt 3)), LogError (FailedAttempt 1), Sleep 10,
      SetNodeWeights [PyInt 3] [0] (Some (PyInt 3)),
      LogError (ErrorOnAttempt 2 (OtherError ''timeout'')), Sleep 10,
      SetNodeWeights [PyInt 3] [0] (Some (PyInt 3))]"
    "fst (set_weights example_rejected_validator) =
     [GetSubstrate, BlocksSinceLastUpdate, MinIntervalToSetWeights, Sleep 180,
      SendScoreReport ''c'' 0 (zero_node_data ''c'' (Some (PyInt 3))),
      SetNodeWeights [PyInt 3] [0] (Some (PyInt 3)), LogError (FailedAttempt 1), Sleep 10,
      SetNodeWeights [PyInt 3] [0] (Some (PyInt 3)), LogError (FailedAttempt 2), Sleep 10,
      SetNodeWeights [PyInt 3] [0] (Some (PyInt 3)), LogError (FailedAttempt 3),
      LogError FailedAllAttempts]"
    by (simp_all add: evaluation_defs)
  show ?thesis
    using set_weights_retry [of example_retry_validator]
      set_weights_retry [of example_rejected_validator] e f t
    by auto
qed

text \<open>
  Claim C9 as stated fails: when the validator's own hotkey is not in the metagraph, the
  \<open>KeyError\<close> of the lookup leaves \<open>set_weights\<close>.
\<close>

theorem set_weights_raises_counterexample:
  "set_weights example_unregistered_validator = ([GetSubstrate], Raised KeyError)"
  by (simp add: evaluation_defs)

theorem set_weights_all_or_nothing_witness:
  "error_before_submit example_unregistered_validator = Some KeyError \<and>
   snd (set_weights example_unregistered_validator) = Raised KeyError \<and>
   filter is_SetNodeWeights (fst (set_weights example_unregistered_validator)) = [] \<and>
   error_before_submit example_rejected_validator = None \<and>
   snd (set_weights example_rejected_validator) = Failed \<and>
   filter is_SetNodeWeights (fst (set_weights example_rejected_validator)) =
     [SetNodeWeights [PyInt 3] [0] (Some (PyInt 3)),
      SetNodeWeights [PyInt 3] [0] (Some (PyInt 3)),
      SetNodeWeights [PyInt 3] [0] (Some (PyInt 3))]"
proof -
  have e: "error_before_submit example_unregistered_validator = Some KeyError"
    "error_before_submit example_rejected_validator = None"
    by (simp_all add: error_before_submit_def evaluation_defs)
  have f: "find (\<lambda>k. set_node_weights example_rejected_validator k = SubmitTrue) [0..<3] = None"
    by (simp add: evaluation_defs)
  have t: "filter is_SetNodeWeights (fst (set_weights example_rejected_validator)) =
     [SetNodeWeights [PyInt 3] [0] (Some (PyInt 3)),
      SetNodeWeights [PyInt 3] [0] (Some (PyInt 3)),
      SetNodeWeights [PyInt 3] [0] (Some (PyInt 3))]"
    by (simp add: evaluation_defs)
  show ?thesis
    using set_weights_all_or_nothing [of example_unregistered_validator]
      set_weights_all_or_nothing [of example_rejected_validator] e f t
    by simp
qed



theorem calculate_weights_report_KeyError_witness:
  "raises_only_KeyError (example_raising_validator KeyError) \<and>
   calculate_weights (example_raising_validator KeyError)
       [zero_node_data ''a'' None, zero_node_data ''c'' None] False =
     ([SendScoreReport ''a'' 0 (zero_node_data ''a'' None),
       LogError (NotFoundInMetagraph ''a''),
       SendScoreReport ''c'' 0 (zero_node_data ''c'' None)],
      Inr ([PyInt 1, PyInt 3], [0, 0])) \<and>
   snd (calculate_weights
         ((example_raising_validator KeyError)\<lparr>send_score_report := (\<lambda>h s n. ReportSent)\<rparr>)
         [zero_node_data ''a'' None, zero_node_data ''c'' None] False) =
     Inr ([PyInt 1, PyInt 3], [0, 0])"
proof -
  let ?recs = "[zero_node_data ''a'' None, zero_node_data ''c'' None]"
  have k: "raises_only_KeyError (example_raising_validator KeyError)"
    by (simp add: raises_only_KeyError_def example_raising_validator_def)
  have c: "calculate_weights (example_raising_validator KeyError) ?recs False =
     ([SendScoreReport ''a'' 0 (zero_node_data ''a'' None),
       LogError (NotFoundInMetagraph ''a''),
       SendScoreReport ''c'' 0 (zero_node_data ''c'' None)],
      Inr ([PyInt 1, PyInt 3], [0, 0]))"
    by (simp add: evaluation_defs score_defs)
  show ?thesis
    using calculate_weights_report_KeyError [OF k, of ?recs False] k c by simp
qed

theorem calculate_weights_None_uid_witness:
  "resolve_uid True example_validator (zero_node_data ''x'' None) = Inr None \<and>
   calculate_weights example_validator
       ([zero_node_data ''a'' (Some (PyInt 4))] @ zero_node_data ''x'' None #
        [zero_node_data ''b'' (Some (PyInt 2))]) True =
     ([SendScoreReport ''a'' 0 (zero_node_data ''a'' (Some (PyInt 4))),
       SendScoreReport ''b'' 0 (zero_node_data ''b'' (Some (PyInt 2)))],
      Inr ([PyInt 2, PyInt 4], [0, 0]))"
proof -
  have n: "resolve_uid True example_validator (zero_node_data ''x'' None) = Inr None"
    by (simp add: resolve_uid_def zero_node_data_def)
  have s: "score_and_sort True example_validator
      (web_scores ([zero_node_data ''a'' (Some (PyInt 4))] @ zero_node_data ''x'' None #
        [zero_node_data ''b'' (Some (PyInt 2))]))
      (tweet_scores ([zero_node_data ''a'' (Some (PyInt 4))] @ zero_node_data ''x'' None #
        [zero_node_data ''b'' (Some (PyInt 2))]))
      (profile_scores ([zero_node_data ''a'' (Some (PyInt 4))] @ zero_node_data ''x'' None #
        [zero_node_data ''b'' (Some (PyInt 2))]))
      (enumerate 0 [zero_node_data ''a'' (Some (PyInt 4))] @
       enumerate (Suc (length [zero_node_data ''a'' (Some (PyInt 4))]))
         [zero_node_data ''b'' (Some (PyInt 2))]) =
     ([SendScoreReport ''a'' 0 (zero_node_data ''a'' (Some (PyInt 4))),
       SendScoreReport ''b'' 0 (zero_node_data ''b'' (Some (PyInt 2)))],
      Inr ([PyInt 2, PyInt 4], [0, 0]))"
    by (simp add: evaluation_defs score_defs)
  show ?thesis
    using calculate_weights_None_uid [OF n, of "[zero_node_data ''a'' (Some (PyInt 4))]"
        "[zero_node_data ''b'' (Some (PyInt 2))]"] n s
    by simp
qed

end
